theory Spec2Isabelle
  imports Complex_Main "HOL-Library.Sublist" "HOL-Library.Multiset"
begin

section \<open>Numbers and small utilities\<close>

text \<open>
  The analysis chain (extraction, aggregation, scoring, synthesis) only ever holds
  numbers that were parsed from one or two decimal digits with an optional fraction, and
  combines them with a handful of constants. Those values are modelled as exact
  rationals: rounding of the binary floating point representation is not part of the model.
  Integer valued results (\<open>Math.round\<close>, counters, scores) are \<open>int\<close> or \<open>nat\<close>.
\<close>

definition clamp :: "'a::linorder \<Rightarrow> 'a \<Rightarrow> 'a \<Rightarrow> 'a" where
  \<comment> \<open>\<open>function clamp(n, min, max){ return Math.max(min, Math.min(max, n)); }\<close>\<close>
  "clamp n mn mx = max mn (min mx n)"

definition Math_round :: "rat \<Rightarrow> int" where
  \<comment> \<open>\<open>Math.round\<close>: the nearest integer, a tie going up\<close>
  "Math_round x = \<lfloor>x + 1 / 2\<rfloor>"

section \<open>Numbers of the projection engine\<close>

text \<open>
  The projection engine computes on whatever the input fields hold, so its numbers can be
  \<open>NaN\<close> or infinite. They are modelled as exact rationals extended by the three special
  values, with the arithmetic of IEEE 754 on them. Rounding of finite values, overflow
  and the sign of zero are not part of the model (a zero divisor counts as \<open>+0\<close>).
\<close>

datatype jsnum = Num rat | PosInf | NegInf | NaN

fun js_neg :: "jsnum \<Rightarrow> jsnum" where
  "js_neg (Num a) = Num (- a)"
| "js_neg PosInf = NegInf"
| "js_neg NegInf = PosInf"
| "js_neg NaN = NaN"

fun js_add :: "jsnum \<Rightarrow> jsnum \<Rightarrow> jsnum" where
  "js_add (Num a) (Num b) = Num (a + b)"
| "js_add NaN y = NaN"
| "js_add x NaN = NaN"
| "js_add PosInf NegInf = NaN"
| "js_add NegInf PosInf = NaN"
| "js_add PosInf y = PosInf"
| "js_add x PosInf = PosInf"
| "js_add NegInf y = NegInf"
| "js_add x NegInf = NegInf"

definition js_sub :: "jsnum \<Rightarrow> jsnum \<Rightarrow> jsnum" where
  "js_sub x y = js_add x (js_neg y)"

definition signed_inf :: "rat \<Rightarrow> jsnum" where
  \<comment> \<open>the infinity with the sign of a non-zero number\<close>
  "signed_inf a = (if a > 0 then PosInf else NegInf)"

fun js_mul :: "jsnum \<Rightarrow> jsnum \<Rightarrow> jsnum" where
  "js_mul (Num a) (Num b) = Num (a * b)"
| "js_mul NaN y = NaN"
| "js_mul x NaN = NaN"
| "js_mul (Num a) PosInf = (if a = 0 then NaN else signed_inf a)"
| "js_mul (Num a) NegInf = (if a = 0 then NaN else signed_inf (- a))"
| "js_mul PosInf (Num b) = (if b = 0 then NaN else signed_inf b)"
| "js_mul NegInf (Num b) = (if b = 0 then NaN else signed_inf (- b))"
| "js_mul PosInf PosInf = PosInf"
| "js_mul PosInf NegInf = NegInf"
| "js_mul NegInf PosInf = NegInf"
| "js_mul NegInf NegInf = PosInf"

fun js_div :: "jsnum \<Rightarrow> jsnum \<Rightarrow> jsnum" where
  "js_div (Num a) (Num b) =
     (if b = 0 then (if a = 0 then NaN else signed_inf a) else Num (a / b))"
| "js_div NaN y = NaN"
| "js_div x NaN = NaN"
| "js_div (Num a) y = Num 0"
| "js_div PosInf (Num b) = (if b \<ge> 0 then PosInf else NegInf)"
| "js_div NegInf (Num b) = (if b \<ge> 0 then NegInf else PosInf)"
| "js_div x y = NaN"

fun js_le :: "jsnum \<Rightarrow> jsnum \<Rightarrow> bool" where
  \<comment> \<open>\<open>x <= y\<close>; false when either side is \<open>NaN\<close>\<close>
  "js_le (Num a) (Num b) = (a \<le> b)"
| "js_le NaN y = False"
| "js_le x NaN = False"
| "js_le NegInf y = True"
| "js_le x PosInf = True"
| "js_le x y = False"

definition Math_max :: "jsnum \<Rightarrow> jsnum \<Rightarrow> jsnum" where
  "Math_max x y = (if x = NaN \<or> y = NaN then NaN else if js_le x y then y else x)"

definition Math_min :: "jsnum \<Rightarrow> jsnum \<Rightarrow> jsnum" where
  "Math_min x y = (if x = NaN \<or> y = NaN then NaN else if js_le x y then x else y)"

definition js_clamp :: "jsnum \<Rightarrow> jsnum \<Rightarrow> jsnum \<Rightarrow> jsnum" where
  \<comment> \<open>\<open>clamp\<close> on the numbers of the projection engine\<close>
  "js_clamp n mn mx = Math_max mn (Math_min mx n)"

fun js_round :: "jsnum \<Rightarrow> jsnum" where
  "js_round (Num a) = Num (of_int \<lfloor>a + 1 / 2\<rfloor>)"
| "js_round x = x"

fun is_finite :: "jsnum \<Rightarrow> bool" where
  "is_finite (Num a) = True"
| "is_finite x = False"

section \<open>Data model\<close>

text \<open>
  The global \<open>state\<close> object and the records stored in it. An opportunity also carries
  fixed display texts (\<open>opp\<close>, \<open>tests\<close>, \<open>criterion\<close>, \<open>scope\<close>, \<open>checklist\<close>) that no
  computation reads; they are left out. A document's \<open>type\<close> and \<open>pages\<close> are not read by
  the functions below either.
\<close>

record document =
  name :: string
  textByPage :: "string list"

record evidence_item =
  ev_disparity :: string
  ev_snippet :: string
  ev_doc :: string
  ev_page :: nat

record opportunity =
  kind :: string
  strength :: string
  score :: int

record finding =
  fid :: string
  key :: string
  disparity :: string
  segment :: string
  magnitude :: rat
  prominence :: nat
  concentration :: rat
  score :: int
  recommend :: string
  evidenceRef :: string

record hit =
  hit_id :: string
  hit_label :: string
  present :: bool
  trigger :: string
  hit_snippet :: string

record chna_eval =
  doc :: string
  isCHNA :: bool
  isIS :: bool
  chnaScore :: int
  isScore :: int
  writtenCommentsScore :: int
  publicScore :: int
  chnaHits :: "hit list"
  isHits :: "hit list"
  wcHits :: "hit list"
  publicSnippet :: string

record transport_scalars =
  overall :: "rat option"
  age6574 :: "rat option"

record tier3_model =
  activity :: string
  months :: jsnum
  annual_touchpoints :: jsnum
  baseline_rate_pct :: jsnum
  barrier_share_pct :: jsnum
  reduction_pct :: jsnum
  coverage_pct :: jsnum
  weight_mode :: string
  seniors_share_pct :: jsnum
  amp_factor :: "jsnum option"
  prevented_disruptions :: jsnum
  units_annual :: jsnum
  startup :: jsnum
  fixed_monthly :: jsnum
  variable_unit_cost :: jsnum
  units_per_prevented :: jsnum
  total_cost_horizon :: jsnum
  annual_cost :: jsnum
  gross_annual_benefit :: jsnum
  net_annual :: jsnum

record state =
  docs :: "document list"
  evidence :: "evidence_item list"
  findings :: "finding list"
  opportunities :: "opportunity list"
  selectedOpp :: "opportunity option"
  transport :: transport_scalars
  chnaEval :: "chna_eval list"
  model :: "tier3_model option"

definition initial_state :: state where
  "initial_state =
     \<lparr>docs = [], evidence = [], findings = [], opportunities = [], selectedOpp = None,
      transport = \<lparr>overall = None, age6574 = None\<rparr>, chnaEval = [], model = None\<rparr>"

section \<open>Finding Aggregator\<close>

fun update_first :: "('a \<Rightarrow> bool) \<Rightarrow> ('a \<Rightarrow> 'a) \<Rightarrow> 'a list \<Rightarrow> 'a list" where
  \<comment> \<open>the in-place mutation of the object that \<open>Array.prototype.find\<close> returned\<close>
  "update_first P g [] = []"
| "update_first P g (x # xs) = (if P x then g x # xs else x # update_first P g xs)"

definition finding_id :: "string \<Rightarrow> string \<Rightarrow> string" where
  \<comment> \<open>\<open>const id = `${key}__${segment}`\<close>\<close>
  "finding_id k seg = k @ ''__'' @ seg"

definition addFinding ::
  "string \<Rightarrow> string \<Rightarrow> string \<Rightarrow> rat \<Rightarrow> nat \<Rightarrow> string \<Rightarrow> state \<Rightarrow> state" where
  "addFinding k disp seg mag prom eref st =
     (let i = finding_id k seg in
      case find (\<lambda>x. fid x = i) (findings st) of
        Some ex \<Rightarrow>
          if mag > magnitude ex
          then st\<lparr>findings :=
                 update_first (\<lambda>x. fid x = i)
                   (\<lambda>e. e\<lparr>magnitude := mag,
                            prominence := max (prominence e) prom,
                            evidenceRef := eref\<rparr>)
                   (findings st)\<rparr>
          else st
      | None \<Rightarrow>
          st\<lparr>findings := findings st @
               [\<lparr>fid = i, key = k, disparity = disp, segment = seg, magnitude = mag,
                 prominence = prom, concentration = 0, score = 0, recommend = [],
                 evidenceRef = eref\<rparr>]\<rparr>)"

text \<open>
  A submission is one call of \<open>addFinding\<close>; \<open>addFindings\<close> performs a sequence of calls in
  order.
\<close>

record submission =
  s_key :: string
  s_disparity :: string
  s_segment :: string
  s_magnitude :: rat
  s_prominence :: nat
  s_evidenceRef :: string

definition submit :: "submission \<Rightarrow> state \<Rightarrow> state" where
  "submit s st =
     addFinding (s_key s) (s_disparity s) (s_segment s) (s_magnitude s) (s_prominence s)
       (s_evidenceRef s) st"

fun addFindings :: "submission list \<Rightarrow> state \<Rightarrow> state" where
  "addFindings [] st = st"
| "addFindings (s # ss) st = addFindings ss (submit s st)"

definition stored :: "string \<Rightarrow> string \<Rightarrow> state \<Rightarrow> finding option" where
  \<comment> \<open>the Finding stored for an identity, looked up as \<open>addFinding\<close> does\<close>
  "stored k seg st = find (\<lambda>x. fid x = finding_id k seg) (findings st)"

definition same_identity :: "string \<Rightarrow> string \<Rightarrow> submission \<Rightarrow> bool" where
  "same_identity k seg s = (finding_id (s_key s) (s_segment s) = finding_id k seg)"

section \<open>Text primitives\<close>

text \<open>
  Texts are byte strings in UTF-8. On ASCII text the functions of this section compute
  what the JavaScript string and regular expression operations compute; window lengths
  count bytes. Case conversion and the white space class cover the ASCII range.
\<close>

definition isDigit :: "char \<Rightarrow> bool" where
  "isDigit c = (48 \<le> (of_char c :: nat) \<and> (of_char c :: nat) \<le> 57)"

definition isSpace :: "char \<Rightarrow> bool" where
  \<comment> \<open>the class \<open>\s\<close>: tab, line feed, vertical tab, form feed, carriage return, space\<close>
  "isSpace c = ((9 \<le> (of_char c :: nat) \<and> (of_char c :: nat) \<le> 13) \<or> (of_char c :: nat) = 32)"

definition lower_char :: "char \<Rightarrow> char" where
  "lower_char c =
     (if 65 \<le> (of_char c :: nat) \<and> (of_char c :: nat) \<le> 90
      then char_of ((of_char c :: nat) + 32) else c)"

definition toLowerCase :: "string \<Rightarrow> string" where
  "toLowerCase t = map lower_char t"

fun str_includes :: "string \<Rightarrow> string \<Rightarrow> bool" where
  \<comment> \<open>\<open>text.includes(pat)\<close>\<close>
  "str_includes [] p = (p = [])"
| "str_includes (c # cs) p = (prefix p (c # cs) \<or> str_includes cs p)"

fun indexOf :: "string \<Rightarrow> string \<Rightarrow> nat option" where
  \<comment> \<open>\<open>text.indexOf(pat)\<close>; \<open>None\<close> is the result \<open>-1\<close>\<close>
  "indexOf [] p = (if p = [] then Some 0 else None)"
| "indexOf (c # cs) p = (if prefix p (c # cs) then Some 0 else map_option Suc (indexOf cs p))"

fun showNat :: "nat \<Rightarrow> string" where
  \<comment> \<open>the decimal digits of a number, as template literals print it\<close>
  "showNat n =
     (if n < 10 then [char_of (48 + n)]
      else showNat (n div 10) @ [char_of (48 + n mod 10)])"

definition decimal :: "string \<Rightarrow> nat" where
  "decimal ds = foldl (\<lambda>a c. 10 * a + ((of_char c :: nat) - 48)) 0 ds"

definition parseFloat :: "string \<Rightarrow> rat option" where
  \<comment> \<open>\<open>parseFloat\<close> on an unsigned decimal literal \<open>digits\<close> or \<open>digits.digits\<close>, which
      is all the capture group below can hold; \<open>None\<close> is \<open>NaN\<close>\<close>
  "parseFloat g =
     (let ip = takeWhile isDigit g; rest = dropWhile isDigit g in
      if ip = [] then None
      else (case rest of
              c # r \<Rightarrow>
                (let fs = takeWhile isDigit r in
                 if c = CHR ''.'' \<and> fs \<noteq> []
                 then Some (of_nat (decimal ip) + of_nat (decimal fs) / 10 ^ length fs)
                 else Some (of_nat (decimal ip)))
            | [] \<Rightarrow> Some (of_nat (decimal ip))))"

section \<open>Signal Extractor\<close>

subsection \<open>The two bounded-window patterns\<close>

text \<open>
  A match result is the pair of the captured group \<open>m[1]\<close> and the whole match \<open>m[0]\<close>.
  The functions follow the backtracking order of the regular expression engine: the
  leftmost start position wins, a lazy window tries the shortest gap first, a greedy one
  the longest.
\<close>

definition afterInt :: "string \<Rightarrow> string \<Rightarrow> (string \<times> string) option" where
  \<comment> \<open>after the integer digits \<open>ip\<close>: \<open>(?:\.\d+)?%\<close>. The fraction takes every digit that
      follows the point, since a shorter one would leave a digit where \<open>%\<close> must stand.\<close>
  "afterInt ip rest =
     (case rest of
        [] \<Rightarrow> None
      | c # r \<Rightarrow>
          if c = CHR ''.'' then
            (let fs = takeWhile isDigit r in
             case dropWhile isDigit r of
               [] \<Rightarrow> None
             | p # _ \<Rightarrow>
                 if fs \<noteq> [] \<and> p = CHR ''%''
                 then Some (ip @ ''.'' @ fs, ip @ ''.'' @ fs @ ''%'')
                 else None)
          else if c = CHR ''%'' then Some (ip, ip @ ''%'')
          else None)"

definition matchPercent :: "string \<Rightarrow> (string \<times> string) option" where
  \<comment> \<open>\<open>(\d{1,2}(?:\.\d+)?)%\<close> at the head of the text: two digits first, then one\<close>
  "matchPercent s =
     (case s of
        a # b # r \<Rightarrow>
          if isDigit a \<and> isDigit b then
            (case afterInt [a, b] r of
               Some m \<Rightarrow> Some m
             | None \<Rightarrow> afterInt [a] (b # r))
          else if isDigit a then afterInt [a] (b # r)
          else None
      | _ \<Rightarrow> None)"

fun lazyGap :: "nat \<Rightarrow> string \<Rightarrow> (string \<times> string) option" where
  \<comment> \<open>\<open>[\s\S]{0,n}?\<close> followed by the percentage\<close>
  "lazyGap n s =
     (case matchPercent s of
        Some m \<Rightarrow> Some m
      | None \<Rightarrow>
          (case (n, s) of
             (Suc k, c # cs) \<Rightarrow> map_option (\<lambda>(g, t). (g, c # t)) (lazyGap k cs)
           | _ \<Rightarrow> None))"

fun matchWord :: "string \<Rightarrow> string \<Rightarrow> (string \<times> string) option" where
  \<comment> \<open>a literal word at the head of the text, ignoring case (flag \<open>i\<close>): the matched text
      and what follows it\<close>
  "matchWord [] s = Some ([], s)"
| "matchWord (w # ws) [] = None"
| "matchWord (w # ws) (c # cs) =
     (if lower_char c = lower_char w
      then map_option (\<lambda>(m, rest). (c # m, rest)) (matchWord ws cs)
      else None)"

fun firstMatch :: "(string \<Rightarrow> 'a option) \<Rightarrow> string \<Rightarrow> 'a option" where
  \<comment> \<open>\<open>text.match(re)\<close>: the match at the leftmost start position that has one\<close>
  "firstMatch f [] = f []"
| "firstMatch f (c # cs) = (case f (c # cs) of Some m \<Rightarrow> Some m | None \<Rightarrow> firstMatch f cs)"

definition wordThenPercent :: "nat \<Rightarrow> string \<Rightarrow> string \<Rightarrow> (string \<times> string) option" where
  \<comment> \<open>a word, a lazy window of at most \<open>n\<close> characters, the percentage\<close>
  "wordThenPercent n w s =
     (case matchWord w s of
        None \<Rightarrow> None
      | Some (w', rest) \<Rightarrow> map_option (\<lambda>(g, t). (g, w' @ t)) (lazyGap n rest))"

definition findPercentNear :: "string \<Rightarrow> string \<Rightarrow> (rat \<times> string) option" where
  \<comment> \<open>the keyword is a literal: every caller passes plain words, or escapes them first\<close>
  "findPercentNear text keyword =
     (case firstMatch (wordThenPercent 160 keyword) text of
        None \<Rightarrow> None
      | Some (g, m0) \<Rightarrow>
          (case parseFloat g of
             None \<Rightarrow> None
           | Some val \<Rightarrow> Some (val, take 280 m0)))"

definition en_dash :: string where
  \<comment> \<open>the bytes of U+2013\<close>
  "en_dash = [CHR 0xE2, CHR 0x80, CHR 0x93]"

definition matchDash :: "string \<Rightarrow> (string \<times> string) option" where
  \<comment> \<open>the character class of the pattern: the hyphen or the en dash\<close>
  "matchDash s =
     (case s of
        [] \<Rightarrow> None
      | c # r \<Rightarrow>
          if c = CHR ''-'' then Some ([c], r)
          else if take 3 s = en_dash then Some (en_dash, drop 3 s)
          else None)"

fun greedyGap :: "nat \<Rightarrow> (string \<Rightarrow> 'a option) \<Rightarrow> string \<Rightarrow> (string \<times> 'a) option" where
  \<comment> \<open>\<open>[\s\S]{0,n}\<close> followed by \<open>f\<close>: the longest gap first\<close>
  "greedyGap 0 f s = map_option (Pair []) (f s)"
| "greedyGap (Suc n) f s =
     (if Suc n \<le> length s
      then (case f (drop (Suc n) s) of
              Some m \<Rightarrow> Some (take (Suc n) s, m)
            | None \<Rightarrow> greedyGap n f s)
      else greedyGap n f s)"

definition age6574At :: "string \<Rightarrow> (string \<times> string) option" where
  \<comment> \<open>\<open>65\s*D\s*74[\s\S]{0,160}transportation[\s\S]{0,80}?(\d{1,2}(?:\.\d+)?)%\<close> at the
      head of the text, \<open>D\<close> being the dash class. Each \<open>\s*\<close> takes the whole run of
      white space, since what must follow it is not white space.\<close>
  "age6574At s =
     (case matchWord ''65'' s of
        None \<Rightarrow> None
      | Some (a, r1) \<Rightarrow>
          (case matchDash (dropWhile isSpace r1) of
             None \<Rightarrow> None
           | Some (d, r2) \<Rightarrow>
               (case matchWord ''74'' (dropWhile isSpace r2) of
                  None \<Rightarrow> None
                | Some (b, r3) \<Rightarrow>
                    (case greedyGap 160 (wordThenPercent 80 ''transportation'') r3 of
                       None \<Rightarrow> None
                     | Some (gap, (g, t)) \<Rightarrow>
                         Some (g, a @ takeWhile isSpace r1 @ d @ takeWhile isSpace r2 @ b
                                  @ gap @ t)))))"

definition findAge6574Transport :: "string \<Rightarrow> (rat \<times> string) option" where
  "findAge6574Transport text =
     (case firstMatch age6574At text of
        None \<Rightarrow> None
      | Some (g, m0) \<Rightarrow>
          (case parseFloat g of
             None \<Rightarrow> None
           | Some val \<Rightarrow> Some (val, take 280 m0)))"

subsection \<open>Scanning documents\<close>

record disparity_entry =
  d_key :: string
  d_label :: string
  d_keywords :: "string list"
  d_metric :: string

definition DISPARITIES :: "disparity_entry list" where
  "DISPARITIES =
     [\<lparr>d_key = ''transport'', d_label = ''Transportation barrier'',
       d_keywords = [''transportation'', ''transit''],
       d_metric = ''% reporting transportation problems''\<rparr>,
      \<lparr>d_key = ''access'', d_label = ''Access to care barrier'',
       d_keywords = [''could not get an appointment'', ''delayed care''],
       d_metric = ''% delaying needed care''\<rparr>,
      \<lparr>d_key = ''food'', d_label = ''Food insecurity'',
       d_keywords = [''food insecurity'', ''food shelf''],
       d_metric = ''% reporting food insecurity''\<rparr>,
      \<lparr>d_key = ''housing'', d_label = ''Housing need'',
       d_keywords = [''housing needs'', ''housing''],
       d_metric = ''% reporting housing needs''\<rparr>,
      \<lparr>d_key = ''financial'', d_label = ''Financial need'',
       d_keywords = [''financial needs'', ''cost too much''],
       d_metric = ''% reporting financial needs''\<rparr>]"

definition segment_overall :: string where
  "segment_overall = ''Overall''"

definition segment_age6574 :: string where
  \<comment> \<open>the label of the age band, written in the source with an en dash between 65 and 74\<close>
  "segment_age6574 = ''Age 65'' @ en_dash @ ''74''"

definition recordEvidence :: "string \<Rightarrow> string \<Rightarrow> string \<Rightarrow> nat \<Rightarrow> state \<Rightarrow> state" where
  "recordEvidence disparityLabel snip dname pg st =
     st\<lparr>evidence := evidence st @
          [\<lparr>ev_disparity = disparityLabel, ev_snippet = snip, ev_doc = dname, ev_page = pg\<rparr>]\<rparr>"

definition countKeywords :: "string \<Rightarrow> (string \<Rightarrow> nat) \<Rightarrow> (string \<Rightarrow> nat)" where
  \<comment> \<open>prominence: one count per page for a disparity, whichever keyword is found\<close>
  "countKeywords lower prom =
     foldl (\<lambda>pr d.
              if list_ex (\<lambda>kw. str_includes lower (toLowerCase kw)) (d_keywords d)
              then pr(d_key d := pr (d_key d) + 1) else pr)
       prom DISPARITIES"

definition scanTransportOverall ::
  "string \<Rightarrow> nat \<Rightarrow> string \<Rightarrow> (string \<Rightarrow> nat) \<Rightarrow> state \<Rightarrow> state" where
  "scanTransportOverall dname i t prom st =
     (case findPercentNear t ''transportation'' of
        None \<Rightarrow> st
      | Some (val, snip) \<Rightarrow>
          (let s1 = recordEvidence ''Transportation barrier'' snip dname (i + 1) st;
               s2 = addFinding ''transport'' ''Transportation barrier'' segment_overall val
                      (prom ''transport'') (dname @ '' p.'' @ showNat (i + 1)) s1
           in if overall (transport s2) = None
              then s2\<lparr>transport := (transport s2)\<lparr>overall := Some val\<rparr>\<rparr>
              else s2))"

definition scanTransport6574 ::
  "string \<Rightarrow> nat \<Rightarrow> string \<Rightarrow> (string \<Rightarrow> nat) \<Rightarrow> state \<Rightarrow> state" where
  "scanTransport6574 dname i t prom st =
     (case findAge6574Transport t of
        None \<Rightarrow> st
      | Some (val, snip) \<Rightarrow>
          (let s1 = recordEvidence ''Transportation barrier'' snip dname (i + 1) st;
               s2 = addFinding ''transport'' ''Transportation barrier'' segment_age6574 val
                      (prom ''transport'') (dname @ '' p.'' @ showNat (i + 1)) s1
           in s2\<lparr>transport := (transport s2)\<lparr>age6574 := Some val\<rparr>\<rparr>))"

definition scanOther ::
  "string \<Rightarrow> nat \<Rightarrow> string \<Rightarrow> (string \<Rightarrow> nat) \<Rightarrow> state \<Rightarrow> disparity_entry \<Rightarrow> state" where
  \<comment> \<open>the body of the loop over the other disparities; \<open>primary\<close> is \<open>d.keywords[0]\<close>, which
      every entry of the table has\<close>
  "scanOther dname i t prom st d =
     (if d_key d = ''transport'' then st
      else (case d_keywords d of
              [] \<Rightarrow> st
            | primary # _ \<Rightarrow>
                (case findPercentNear t primary of
                   None \<Rightarrow> st
                 | Some (val, snip) \<Rightarrow>
                     addFinding (d_key d) (d_label d) segment_overall val (prom (d_key d))
                       (dname @ '' p.'' @ showNat (i + 1))
                       (recordEvidence (d_label d) snip dname (i + 1) st))))"

definition scanPage ::
  "string \<Rightarrow> (string \<Rightarrow> nat) \<times> state \<Rightarrow> nat \<times> string \<Rightarrow> (string \<Rightarrow> nat) \<times> state" where
  \<comment> \<open>one iteration of the page loop: the prominence counters and the state, before and
      after page \<open>i\<close> with text \<open>t\<close>\<close>
  "scanPage dname ps it =
     (let prom = countKeywords (toLowerCase (snd it)) (fst ps);
          s1 = scanTransportOverall dname (fst it) (snd it) prom (snd ps);
          s2 = scanTransport6574 dname (fst it) (snd it) prom s1;
          s3 = foldl (scanOther dname (fst it) (snd it) prom) s2 DISPARITIES
      in (prom, s3))"

definition scanDoc :: "document \<Rightarrow> state \<Rightarrow> state" where
  "scanDoc d st =
     snd (foldl (scanPage (name d)) (\<lambda>k. 0, st) (enumerate 0 (textByPage d)))"

definition scanDocs :: "document list \<Rightarrow> state \<Rightarrow> state" where
  \<comment> \<open>\<open>for(const d of state.docs){ scanDoc(d); }\<close>\<close>
  "scanDocs ds st = foldl (\<lambda>s d. scanDoc d s) st ds"

section \<open>Materiality Scorer\<close>

definition byKey :: "finding list \<Rightarrow> string \<Rightarrow> finding list" where
  \<comment> \<open>the group \<open>byKey[k]\<close>: the findings of one key, in list order\<close>
  "byKey fs k = filter (\<lambda>f. key f = k) fs"

definition setConcentration :: "finding list \<Rightarrow> finding \<Rightarrow> finding" where
  \<comment> \<open>the first loop, for one finding: its group's \<open>Overall\<close> entry is the reference\<close>
  "setConcentration fs f =
     (case find (\<lambda>x. segment x = segment_overall) (byKey fs (key f)) of
        Some ov \<Rightarrow>
          f\<lparr>concentration :=
              (if segment f \<noteq> segment_overall then max 0 (magnitude f - magnitude ov) else 0)\<rparr>
      | None \<Rightarrow> f\<lparr>concentration := 0\<rparr>)"

definition transportBonus :: "transport_scalars \<Rightarrow> rat" where
  "transportBonus tr =
     (case overall tr of
        None \<Rightarrow> 0
      | Some ov \<Rightarrow>
          (case age6574 tr of
             None \<Rightarrow> 0
           | Some a \<Rightarrow> if ov > 0 then clamp ((a / ov - 1) * 8) 0 10 else 0))"

definition baseScore :: "finding \<Rightarrow> int" where
  \<comment> \<open>\<open>Math.round(magScore + concScore + promScore)\<close>\<close>
  "baseScore f =
     Math_round (clamp (magnitude f / 30 * 60) 0 60
               + clamp (concentration f / 15 * 25) 0 25
               + clamp (of_nat (prominence f) / 6 * 15) 0 15)"

definition recommendOf :: "int \<Rightarrow> string" where
  "recommendOf sc =
     (if sc \<ge> 70 then ''Advance (high)''
      else if sc \<ge> 55 then ''Advance (moderate)'' else ''Defer/monitor'')"

definition scoreFinding :: "rat \<Rightarrow> finding \<Rightarrow> finding" where
  \<comment> \<open>the body of the second loop\<close>
  "scoreFinding bonus f =
     (let sc = (if key f = ''transport''
                then clamp (baseScore f + Math_round bonus) 0 100
                else baseScore f)
      in f\<lparr>score := sc, recommend := recommendOf sc\<rparr>)"

definition computeMateriality :: "state \<Rightarrow> state" where
  \<comment> \<open>the final sort is stable and descending in the score\<close>
  "computeMateriality st =
     st\<lparr>findings :=
          sort_key (\<lambda>f. - score f)
            (map (\<lambda>f. scoreFinding (transportBonus (transport st))
                         (setConcentration (findings st) f))
               (findings st))\<rparr>"

section \<open>Opportunity Synthesizer and Tier Gate\<close>

definition bestByKey :: "finding list \<Rightarrow> string \<Rightarrow> finding option" where
  \<comment> \<open>the first finding of a key in list order\<close>
  "bestByKey fs k = find (\<lambda>f. key f = k) fs"

definition scoreOpportunity :: "rat \<Rightarrow> rat \<Rightarrow> rat \<Rightarrow> rat \<Rightarrow> int" where
  "scoreOpportunity eligibilityClarity responsiveness attributionStrength docBurden =
     Math_round (30 / 100 * eligibilityClarity + 30 / 100 * responsiveness
               + 25 / 100 * attributionStrength + 15 / 100 * (100 - docBurden))"

definition attribution :: rat where
  "attribution = 70"

definition strengthOf :: "int \<Rightarrow> string" where
  "strengthOf sc = (if sc \<ge> 75 then ''Strong'' else if sc \<ge> 60 then ''Moderate'' else ''Weak'')"

definition makeOpp :: "string \<Rightarrow> rat \<Rightarrow> int \<Rightarrow> rat \<Rightarrow> opportunity" where
  \<comment> \<open>one block of \<open>buildOpportunities\<close>: \<open>fscore\<close> is \<open>f.score\<close>\<close>
  "makeOpp knd eligibility fscore burden =
     (let responsiveness = clamp (of_int fscore) 0 100;
          sc = scoreOpportunity eligibility responsiveness attribution burden
      in \<lparr>kind = knd, strength = strengthOf sc, opportunity.score = sc\<rparr>)"

definition buildOpportunities :: "state \<Rightarrow> state" where
  "buildOpportunities st =
     (let best = bestByKey (findings st);
          nmt = [makeOpp ''nmt'' 90 (case best ''transport'' of Some f \<Rightarrow> score f | None \<Rightarrow> 55) 35];
          food = (case best ''food'' of Some f \<Rightarrow> [makeOpp ''food'' 80 (score f) 45] | None \<Rightarrow> []);
          care = (case best ''access'' of Some f \<Rightarrow> [makeOpp ''care'' 75 (score f) 50] | None \<Rightarrow> []);
          opps = sort_key (\<lambda>x. - opportunity.score x) (nmt @ food @ care)
      in st\<lparr>opportunities := opps,
            selectedOpp := (case opps of [] \<Rightarrow> None | x # _ \<Rightarrow> Some x)\<rparr>)"

definition tier3Unlocked :: "state \<Rightarrow> bool" where
  \<comment> \<open>\<open>state.opportunities.some(o=>o.score>=60)\<close>\<close>
  "tier3Unlocked st = list_ex (\<lambda>x. opportunity.score x \<ge> 60) (opportunities st)"

definition btn_reset :: "state \<Rightarrow> state" where
  \<comment> \<open>the state assignments of the reset button's click handler\<close>
  "btn_reset st =
     st\<lparr>docs := [], evidence := [], findings := [], opportunities := [], selectedOpp := None,
        chnaEval := [], transport := \<lparr>overall = None, age6574 = None\<rparr>\<rparr>"

section \<open>Documentation Gap Evaluator\<close>

record element =
  el_id :: string
  el_label :: string
  pats :: "string list"

definition CHNA_ELEMENTS :: "element list" where
  "CHNA_ELEMENTS =
     [\<lparr>el_id = ''community_def'',
       el_label = ''Definition of community served + how determined'',
       pats =
        [''definition of the community'',
         ''community served'',
         ''service area'',
         ''community definition'',
         ''how the community was determined'']\<rparr>,
      \<lparr>el_id = ''methods'',
       el_label = ''Process and methods used to conduct CHNA'',
       pats =
        [''methods'',
         ''methodology'',
         ''data sources'',
         ''process used'',
         ''approach'',
         ''survey methodology'',
         ''focus group'']\<rparr>,
      \<lparr>el_id = ''input'',
       el_label = ''How input was solicited and taken into account (broad interests)'',
       pats =
        [''input from persons who represent'',
         ''broad interests of the community'',
         ''community input'',
         ''stakeholder input'',
         ''community representatives'']\<rparr>,
      \<lparr>el_id = ''underserved'',
       el_label = ''Description of medically underserved / low-income / minority populations represented by input'',
       pats =
        [''medically underserved'',
         ''low-income'',
         ''minority populations'',
         ''priority populations'',
         ''vulnerable populations'',
         ''underserved populations'']\<rparr>,
      \<lparr>el_id = ''priorities'',
       el_label = ''Prioritized description of significant health needs'',
       pats =
        [''prioritized'',
         ''priority health needs'',
         ''significant health needs'',
         ''ranked'',
         ''top needs'',
         ''prioritization'']\<rparr>,
      \<lparr>el_id = ''resources'',
       el_label = ''Resources potentially available to address identified needs'',
       pats =
        [''resources available'',
         ''available resources'',
         ''community resources'',
         ''assets'',
         ''existing programs'',
         ''capacity'']\<rparr>,
      \<lparr>el_id = ''impact_eval'',
       el_label = ''Evaluation of impact since the immediately preceding CHNA'',
       pats =
        [''evaluation of impact'',
         ''impact of actions'',
         ''progress since'',
         ''results since last'',
         ''prior CHNA'',
         ''evaluation since'']\<rparr>]"

definition IS_ELEMENTS :: "element list" where
  "IS_ELEMENTS =
     [\<lparr>el_id = ''is_actions'',
       el_label = ''Actions to address each health need'',
       pats =
        [''actions the hospital will take'',
         ''strategy'',
         ''interventions'',
         ''action plan'',
         ''will address'']\<rparr>,
      \<lparr>el_id = ''is_resources_impact'',
       el_label = ''Resources devoted + anticipated impact'',
       pats =
        [''resources devoted'',
         ''anticipated impact'',
         ''budget'',
         ''investment'',
         ''expected impact'',
         ''metrics'']\<rparr>,
      \<lparr>el_id = ''is_collab'',
       el_label = ''Planned collaborations with other institutions'',
       pats =
        [''collaboration'',
         ''partner'',
         ''coalition'',
         ''in partnership with'',
         ''collaborate with'',
         ''community partners'']\<rparr>]"

definition WRITTEN_COMMENT_ELEMENTS :: "element list" where
  "WRITTEN_COMMENT_ELEMENTS =
     [\<lparr>el_id = ''wc_solicit'',
       el_label = ''How written comments were solicited (most recent CHNA/IS)'',
       pats =
        [''written comments'',
         ''public comment'',
         ''comment period'',
         ''solicit'',
         ''feedback form'',
         ''survey'',
         ''web-based'',
         ''paper survey'',
         ''community forum'',
         ''open house'',
         ''telephone'']\<rparr>,
      \<lparr>el_id = ''wc_received'',
       el_label = ''At least 1 written comment received'',
       pats =
        [''we received'',
         ''comments were received'',
         ''comment(s) received'',
         ''written comment'',
         ''responses received'',
         ''feedback received'']\<rparr>,
      \<lparr>el_id = ''wc_used'',
       el_label = ''How comments were taken into account in current CHNA/IS'',
       pats =
        [''taken into account'',
         ''incorporated'',
         ''informed'',
         ''used to update'',
         ''we considered'',
         ''resulting changes'',
         ''we adjusted'',
         ''we revised'']\<rparr>]"

definition publicPats :: "string list" where
  "publicPats =
     [''available on our website'', ''posted on our website'', ''publicly available'',
      ''public comment'', ''comment period'', ''available online'']"

fun join :: "string \<Rightarrow> string list \<Rightarrow> string" where
  \<comment> \<open>\<open>Array.prototype.join\<close>\<close>
  "join sep [] = []"
| "join sep [x] = x"
| "join sep (x # y # ys) = x @ sep @ join sep (y # ys)"

function collapse_ws :: "string \<Rightarrow> string" where
  \<comment> \<open>\<open>replace(/\s+/g,' ')\<close>\<close>
  "collapse_ws [] = []"
| "collapse_ws (c # cs) =
     (if isSpace c then CHR '' '' # collapse_ws (dropWhile isSpace cs)
      else c # collapse_ws cs)"
  by pat_completeness auto
termination
  by (relation "measure length") (auto simp: length_dropWhile_le less_Suc_eq_le)

definition trim :: "string \<Rightarrow> string" where
  "trim t = rev (dropWhile isSpace (rev (dropWhile isSpace t)))"

definition findSnippet :: "string \<Rightarrow> string \<Rightarrow> string option" where
  \<comment> \<open>\<open>_findSnippet\<close>; \<open>None\<close> is \<open>null\<close>. The subtraction on \<open>nat\<close> stops at zero, as
      \<open>Math.max(0, idx-90)\<close> does.\<close>
  "findSnippet text pat =
     (case indexOf (toLowerCase text) (toLowerCase pat) of
        None \<Rightarrow> None
      | Some idx \<Rightarrow>
          (let start = idx - 90;
               end' = min (length text) (idx + 170)
           in Some (trim (collapse_ws (take (end' - start) (drop start text))))))"

record block_result =
  b_score :: int
  hits :: "hit list"
  presentCount :: nat
  total :: nat

definition absent :: "element \<Rightarrow> hit" where
  "absent el =
     \<lparr>hit_id = el_id el, hit_label = el_label el, present = False, trigger = [],
      hit_snippet = []\<rparr>"

definition evalElement :: "string \<Rightarrow> string \<Rightarrow> element \<Rightarrow> hit" where
  \<comment> \<open>the body of the loop of \<open>scoreBlock\<close>: the first pattern found wins. A pattern
      that is the empty string would count as absent, as it does in the source.\<close>
  "evalElement all lower el =
     (case find (\<lambda>p. str_includes lower (toLowerCase p)) (pats el) of
        None \<Rightarrow> absent el
      | Some found \<Rightarrow>
          if found = [] then absent el
          else \<lparr>hit_id = el_id el, hit_label = el_label el, present = True,
                trigger = found,
                hit_snippet = (case findSnippet all found of Some t \<Rightarrow> t | None \<Rightarrow> [])\<rparr>)"

definition scoreBlock :: "string \<Rightarrow> string \<Rightarrow> element list \<Rightarrow> block_result" where
  "scoreBlock all lower block =
     (let hs = map (evalElement all lower) block;
          n = length (filter present hs)
      in \<lparr>b_score = Math_round (of_nat n / of_nat (length hs) * 100),
          hits = hs, presentCount = n, total = length hs\<rparr>)"

definition evalDocForElements :: "document \<Rightarrow> chna_eval" where
  "evalDocForElements d =
     (let all = join [CHR '' '', CHR 0x0A] (textByPage d);
          lower = toLowerCase all;
          publicHit = (case find (\<lambda>p. str_includes lower (toLowerCase p)) publicPats of
                         None \<Rightarrow> None
                       | Some p \<Rightarrow> if p = [] then None else Some p);
          publicSnip = (case publicHit of Some p \<Rightarrow> findSnippet all p | None \<Rightarrow> None);
          chna = scoreBlock all lower CHNA_ELEMENTS;
          isb = scoreBlock all lower IS_ELEMENTS;
          wc = scoreBlock all lower WRITTEN_COMMENT_ELEMENTS;
          wcScore = (if presentCount wc = 3 then 100
                     else if presentCount wc = 2 then 67
                     else if presentCount wc = 1 then 33 else 0)
      in \<lparr>doc = name d,
          isCHNA = (str_includes lower ''community health needs assessment''
                    \<or> str_includes lower ''chna''),
          isIS = (str_includes lower ''implementation strategy''
                  \<or> str_includes lower ''implementation plan''
                  \<or> str_includes lower ''implementation strategies''),
          chnaScore = b_score chna,
          isScore = b_score isb,
          writtenCommentsScore = wcScore,
          publicScore = (if publicHit \<noteq> None then 100 else 0),
          chnaHits = hits chna,
          isHits = hits isb,
          wcHits = hits wc,
          publicSnippet = (case publicSnip of Some t \<Rightarrow> t | None \<Rightarrow> [])\<rparr>)"

section \<open>Financial Projection Engine\<close>

text \<open>
  An input field of the page holds a text. \<open>Empty\<close> is the empty text; \<open>Parsed x\<close> is a
  non-empty text on which \<open>parseFloat\<close> (for the months, \<open>parseInt\<close>) returns \<open>x\<close>, which is
  \<open>NaN\<close> for a text that does not start with a number.
\<close>

datatype field = Empty | Parsed jsnum

definition orDefault :: "field \<Rightarrow> rat \<Rightarrow> jsnum" where
  \<comment> \<open>\<open>parseFloat(value || "d")\<close>: only the empty text gets the default\<close>
  "orDefault v d = (case v of Empty \<Rightarrow> Num d | Parsed x \<Rightarrow> x)"

record tier3_inputs =
  inp_activity :: string
  inp_months :: field
  inp_annual :: field
  inp_base :: field
  inp_share :: field
  inp_red :: field
  inp_cov :: field
  inp_weight_mode :: string
  inp_sen_share :: field
  inp_benefit :: field
  inp_startup :: field
  inp_fixed :: field
  inp_var :: field
  inp_units :: field

definition ampFactorOf :: "transport_scalars \<Rightarrow> string \<Rightarrow> jsnum" where
  \<comment> \<open>the amplification factor: 1.0 unless both rates are known and the overall rate is
      positive, and 1.0 in the flat weighting mode\<close>
  "ampFactorOf tr weightMode =
     (if weightMode = ''flat'' then Num 1
      else (case overall tr of
              None \<Rightarrow> Num 1
            | Some ov \<Rightarrow>
                (case age6574 tr of
                   None \<Rightarrow> Num 1
                 | Some a \<Rightarrow> if ov > 0 then Num (a / ov) else Num 1)))"

definition runTier3 :: "tier3_inputs \<Rightarrow> state \<Rightarrow> state" where
  "runTier3 inp st =
     (let months = orDefault (inp_months inp) 12;
          annual = orDefault (inp_annual inp) 0;
          baseRate = js_div (orDefault (inp_base inp) 0) (Num 100);
          share = js_div (orDefault (inp_share inp) 0) (Num 100);
          red = js_div (orDefault (inp_red inp) 0) (Num 100);
          covPct = orDefault (inp_cov inp) 25;
          weightMode = inp_weight_mode inp;
          senSharePct = js_clamp (orDefault (inp_sen_share inp) 25) (Num 0) (Num 100);
          benefitPer = orDefault (inp_benefit inp) 0;
          startup' = orDefault (inp_startup inp) 0;
          fixed = orDefault (inp_fixed inp) 0;
          varCost = orDefault (inp_var inp) 0;
          unitsPer = orDefault (inp_units inp) 1;
          eligibleTouchpoints = js_mul annual (js_div covPct (Num 100));
          ampFactor = ampFactorOf (transport st) weightMode;
          senShare = js_div senSharePct (Num 100);
          effBarrierShare =
            js_clamp (js_mul share (js_add (js_mul (js_sub (Num 1) senShare) (Num 1))
                                           (js_mul senShare ampFactor)))
              (Num 0) (Num 1);
          baselineDisrupt = js_mul eligibleTouchpoints baseRate;
          barrierDisrupt = js_mul baselineDisrupt effBarrierShare;
          prevented = js_mul barrierDisrupt red;
          unitsAnnual = js_mul prevented unitsPer;
          grossAnnual = js_mul prevented benefitPer;
          totalCostH =
            js_add (js_add startup' (js_mul fixed months))
              (js_mul (js_mul unitsAnnual (js_div months (Num 12))) varCost);
          annualCost = js_mul totalCostH (js_div (Num 12) months);
          netAnnual = js_sub grossAnnual annualCost
      in st\<lparr>model := Some
           \<lparr>activity = inp_activity inp, months = months, annual_touchpoints = annual,
            baseline_rate_pct = js_mul baseRate (Num 100),
            barrier_share_pct = js_mul share (Num 100),
            reduction_pct = js_mul red (Num 100),
            coverage_pct = js_round covPct,
            weight_mode = weightMode,
            seniors_share_pct = js_round senSharePct,
            amp_factor =
              (case overall (transport st) of
                 None \<Rightarrow> None
               | Some ov \<Rightarrow>
                   (case age6574 (transport st) of
                      None \<Rightarrow> None
                    | Some a \<Rightarrow>
                        if ov \<noteq> 0 \<and> a \<noteq> 0 then Some (js_div (Num a) (Num ov)) else None)),
            prevented_disruptions = prevented,
            units_annual = unitsAnnual,
            startup = startup', fixed_monthly = fixed, variable_unit_cost = varCost,
            units_per_prevented = unitsPer,
            total_cost_horizon = totalCostH,
            annual_cost = annualCost,
            gross_annual_benefit = grossAnnual,
            net_annual = netAnnual\<rparr>\<rparr>)"

subsection \<open>The ROI-parity model\<close>

definition parseField :: "field \<Rightarrow> jsnum" where
  \<comment> \<open>\<open>parseFloat(el.value)\<close>: the empty text gives \<open>NaN\<close>\<close>
  "parseField v = (case v of Empty \<Rightarrow> NaN | Parsed x \<Rightarrow> x)"

definition orZero :: "jsnum \<Rightarrow> jsnum" where
  \<comment> \<open>\<open>x || 0\<close>: \<open>NaN\<close> and zero are falsy\<close>
  "orZero x = (if x = NaN \<or> x = Num 0 then Num 0 else x)"

definition normRate :: "jsnum \<Rightarrow> jsnum" where
  \<comment> \<open>\<open>_normRate\<close>: \<open>if(isNaN(x)) return 0; return (x > 1) ? (x/100) : x;\<close>\<close>
  "normRate x =
     (if x = NaN then Num 0
      else if js_le x (Num 1) then x else js_div x (Num 100))"

record roi_fields =
  a_visits :: field
  a_noshow :: field
  a_share :: field
  a_netrev :: field
  a_margc :: field
  b_mitig :: field
  b_trip :: field
  b_over :: field
  c_lmi :: field
  c_aa :: field
  c_bank :: field

record roi_in =
  visits :: jsnum
  noshow :: jsnum
  share :: jsnum
  netrev :: jsnum
  margc :: jsnum
  mitig :: jsnum
  trip :: jsnum
  over :: jsnum
  lmi :: jsnum
  aa :: jsnum
  bank :: jsnum

record roi_out =
  transport_no_shows :: jsnum
  prevented :: jsnum
  gross_rev :: jsnum
  marginal_cost :: jsnum
  transport_cost :: jsnum
  overhead_cost :: jsnum
  total_program_cost :: jsnum
  net_benefit :: jsnum
  be_trip_max :: jsnum
  trips :: jsnum
  lmi_trips :: jsnum
  aa_trips :: jsnum
  bank_per_lmi :: jsnum
  bank_share_cost :: jsnum

definition roi_inputs :: "roi_fields \<Rightarrow> roi_in" where
  "roi_inputs fs =
     \<lparr>visits = orZero (parseField (a_visits fs)),
      noshow = normRate (parseField (a_noshow fs)),
      share = normRate (parseField (a_share fs)),
      netrev = orZero (parseField (a_netrev fs)),
      margc = orZero (parseField (a_margc fs)),
      mitig = normRate (parseField (b_mitig fs)),
      trip = orZero (parseField (b_trip fs)),
      over = normRate (parseField (b_over fs)),
      lmi = normRate (parseField (c_lmi fs)),
      aa = normRate (parseField (c_aa fs)),
      bank = orZero (parseField (c_bank fs))\<rparr>"

definition roi_calc :: "roi_in \<Rightarrow> roi_out" where
  \<comment> \<open>the numeric outputs; the narrative text is left out\<close>
  "roi_calc inp =
     (let transport_no_shows' = js_mul (js_mul (visits inp) (noshow inp)) (share inp);
          prevented' = js_mul transport_no_shows' (mitig inp);
          gross_rev' = js_mul prevented' (netrev inp);
          marginal_cost' = js_mul prevented' (margc inp);
          transport_cost' = js_mul prevented' (trip inp);
          overhead_cost' = js_mul transport_cost' (over inp);
          total_program_cost' = js_add transport_cost' overhead_cost';
          net_benefit' = js_sub (js_sub gross_rev' marginal_cost') total_program_cost';
          be_trip_max' = js_sub (netrev inp) (margc inp);
          trips' = prevented';
          lmi_trips' = js_mul trips' (lmi inp);
          aa_trips' = js_mul trips' (aa inp);
          bank_per_lmi' =
            (if lmi_trips' = Num 0 then Num 0 else js_div (bank inp) lmi_trips');
          bank_share_cost' =
            (if total_program_cost' = Num 0 then Num 0
             else js_div (bank inp) total_program_cost')
      in \<lparr>transport_no_shows = transport_no_shows', prevented = prevented',
          gross_rev = gross_rev', marginal_cost = marginal_cost',
          transport_cost = transport_cost', overhead_cost = overhead_cost',
          total_program_cost = total_program_cost', net_benefit = net_benefit',
          be_trip_max = be_trip_max', trips = trips', lmi_trips = lmi_trips',
          aa_trips = aa_trips', bank_per_lmi = bank_per_lmi',
          bank_share_cost = bank_share_cost'\<rparr>)"

section \<open>Notions used to state the properties\<close>

subsection \<open>Aggregation of one identity\<close>

text \<open>
  What \<open>addFinding\<close> does to the record of one identity, seen on the record alone: \<open>fresh\<close>
  is the record a first submission creates, \<open>merge\<close> the effect of a later one. The
  accepted submissions of a sequence are the first one and every later one whose
  magnitude is strictly greater than all magnitudes before it.
\<close>

definition fresh :: "submission \<Rightarrow> finding" where
  "fresh s =
     \<lparr>fid = finding_id (s_key s) (s_segment s), key = s_key s, disparity = s_disparity s,
      segment = s_segment s, magnitude = s_magnitude s, prominence = s_prominence s,
      concentration = 0, score = 0, recommend = [], evidenceRef = s_evidenceRef s\<rparr>"

definition merge :: "finding \<Rightarrow> submission \<Rightarrow> finding" where
  "merge ex s =
     (if s_magnitude s > magnitude ex
      then ex\<lparr>magnitude := s_magnitude s,
              prominence := max (prominence ex) (s_prominence s),
              evidenceRef := s_evidenceRef s\<rparr>
      else ex)"

fun accepted_from :: "rat \<Rightarrow> submission list \<Rightarrow> submission list" where
  "accepted_from m [] = []"
| "accepted_from m (s # ss) =
     (if s_magnitude s > m then s # accepted_from (s_magnitude s) ss else accepted_from m ss)"

definition accepted :: "submission list \<Rightarrow> submission list" where
  "accepted subs = (case subs of [] \<Rightarrow> [] | s # r \<Rightarrow> s # accepted_from (s_magnitude s) r)"

definition transport_submission :: "rat \<Rightarrow> nat \<Rightarrow> string \<Rightarrow> submission" where
  \<comment> \<open>a call for the identity (transport, Overall), as \<open>scanDoc\<close> makes it\<close>
  "transport_submission mag prom eref =
     \<lparr>s_key = ''transport'', s_disparity = ''Transportation barrier'',
      s_segment = segment_overall, s_magnitude = mag, s_prominence = prom,
      s_evidenceRef = eref\<rparr>"

definition food_submission :: "rat \<Rightarrow> nat \<Rightarrow> string \<Rightarrow> submission" where
  "food_submission mag prom eref =
     \<lparr>s_key = ''food'', s_disparity = ''Food insecurity'',
      s_segment = segment_overall, s_magnitude = mag, s_prominence = prom,
      s_evidenceRef = eref\<rparr>"

subsection \<open>Matches of the two transportation patterns, in reading order\<close>

definition overall_matches :: "document list \<Rightarrow> rat list" where
  \<comment> \<open>the values \<open>findPercentNear\<close> finds for \<open>transportation\<close>, page by page, document
      by document\<close>
  "overall_matches ds =
     List.map_filter (\<lambda>t. map_option fst (findPercentNear t ''transportation''))
       (concat (map textByPage ds))"

definition age6574_matches :: "document list \<Rightarrow> rat list" where
  "age6574_matches ds =
     List.map_filter (\<lambda>t. map_option fst (findAge6574Transport t))
       (concat (map textByPage ds))"

definition transport_step :: "string \<Rightarrow> transport_scalars \<Rightarrow> transport_scalars" where
  \<comment> \<open>what scanning one page does to the two scalars\<close>
  "transport_step t tr =
     \<lparr>overall =
        (case overall tr of
           Some v \<Rightarrow> Some v
         | None \<Rightarrow> map_option fst (findPercentNear t ''transportation'')),
      age6574 =
        (case findAge6574Transport t of
           Some m \<Rightarrow> Some (fst m)
         | None \<Rightarrow> age6574 tr)\<rparr>"

subsection \<open>A scanned state with a transportation differential\<close>

text \<open>
  The state after scanning one document whose first page mentions transit and whose
  second page reads \<open>I had transportation problems 32%. Age 65-74: I had transportation
  problems 36.75%\<close>: two findings with prominence 2, and both scalars set.
\<close>

definition differential_state :: state where
  "differential_state =
     initial_state
       \<lparr>findings :=
          [\<lparr>fid = finding_id ''transport'' segment_overall, key = ''transport'',
            disparity = ''Transportation barrier'', segment = segment_overall,
            magnitude = 32, prominence = 2, concentration = 0, score = 0, recommend = [],
            evidenceRef = ''d.txt p.2''\<rparr>,
           \<lparr>fid = finding_id ''transport'' segment_age6574, key = ''transport'',
            disparity = ''Transportation barrier'', segment = segment_age6574,
            magnitude = 147 / 4, prominence = 2, concentration = 0, score = 0, recommend = [],
            evidenceRef = ''d.txt p.2''\<rparr>],
        transport := \<lparr>overall = Some 32, age6574 = Some (147 / 4)\<rparr>\<rparr>"

definition differential_doc :: document where
  "differential_doc =
     \<lparr>name = ''d.txt'',
      textByPage =
        [''Transit access matters.'',
         ''I had transportation problems 32%. Age 65-74: I had transportation problems 36.75%'']\<rparr>"

subsection \<open>A state with a food finding and no transportation finding\<close>

definition food_only_state :: state where
  "food_only_state =
     initial_state
       \<lparr>findings :=
          [\<lparr>fid = finding_id ''food'' segment_overall, key = ''food'',
            disparity = ''Food insecurity'', segment = segment_overall,
            magnitude = 15 / 2, prominence = 1, concentration = 0, score = 18,
            recommend = ''Defer/monitor'', evidenceRef = ''a.pdf p.1''\<rparr>]\<rparr>"

subsection \<open>Inputs of the projection engine\<close>



definition with_months :: "tier3_inputs \<Rightarrow> rat \<Rightarrow> tier3_inputs" where
  \<comment> \<open>the same inputs with the number \<open>k\<close> typed into the months field\<close>
  "with_months inp k = inp\<lparr>inp_months := Parsed (Num k)\<rparr>"

definition default_inputs :: tier3_inputs where
  \<comment> \<open>every numeric field left empty\<close>
  "default_inputs =
     \<lparr>inp_activity = ''nemt'', inp_months = Empty, inp_annual = Empty, inp_base = Empty,
      inp_share = Empty, inp_red = Empty, inp_cov = Empty, inp_weight_mode = ''weighted'',
      inp_sen_share = Empty, inp_benefit = Empty, inp_startup = Empty, inp_fixed = Empty,
      inp_var = Empty, inp_units = Empty\<rparr>"


definition plain :: "field \<Rightarrow> bool" where
  \<comment> \<open>a field whose text does not parse to an infinity: empty, a finite number, or a text
      that is no number at all\<close>
  "plain v = (parseField v \<noteq> PosInf \<and> parseField v \<noteq> NegInf)"

definition plain_fields :: "roi_fields \<Rightarrow> bool" where
  "plain_fields fs =
     (plain (a_visits fs) \<and> plain (a_noshow fs) \<and> plain (a_share fs) \<and> plain (a_netrev fs)
      \<and> plain (a_margc fs) \<and> plain (b_mitig fs) \<and> plain (b_trip fs) \<and> plain (b_over fs)
      \<and> plain (c_lmi fs) \<and> plain (c_aa fs) \<and> plain (c_bank fs))"

definition finite_outputs :: "roi_out \<Rightarrow> bool" where
  "finite_outputs out =
     (is_finite (transport_no_shows out) \<and> is_finite (prevented out)
      \<and> is_finite (gross_rev out) \<and> is_finite (marginal_cost out)
      \<and> is_finite (transport_cost out) \<and> is_finite (overhead_cost out)
      \<and> is_finite (total_program_cost out) \<and> is_finite (net_benefit out)
      \<and> is_finite (be_trip_max out) \<and> is_finite (trips out) \<and> is_finite (lmi_trips out)
      \<and> is_finite (aa_trips out) \<and> is_finite (bank_per_lmi out)
      \<and> is_finite (bank_share_cost out))"

subsection \<open>Checklist elements present in a document\<close>

definition doc_lower :: "document \<Rightarrow> string" where
  \<comment> \<open>the lower-cased text of all pages, joined as the evaluator joins them\<close>
  "doc_lower d = toLowerCase (join [CHR '' '', CHR 0x0A] (textByPage d))"

definition element_present :: "document \<Rightarrow> element \<Rightarrow> bool" where
  \<comment> \<open>an element is present when one of its trigger phrases occurs in the text\<close>
  "element_present d el = list_ex (\<lambda>p. str_includes (doc_lower d) (toLowerCase p)) (pats el)"

definition present_count :: "document \<Rightarrow> element list \<Rightarrow> nat" where
  "present_count d block = length (filter (element_present d) block)"

definition two_comment_elements_doc :: document where
  \<comment> \<open>solicitation (survey) and receipt (we received) are present, use is not\<close>
  "two_comment_elements_doc =
     \<lparr>name = ''c.txt'', textByPage = [''We received feedback through a survey.'']\<rparr>"

section \<open>Properties of the Finding Aggregator\<close>

lemma fresh_sel:
  "magnitude (fresh s) = s_magnitude s" "evidenceRef (fresh s) = s_evidenceRef s"
  "prominence (fresh s) = s_prominence s"
  by (simp_all add: fresh_def)

lemma find_update_first_same:
  "(\<And>x. P x \<Longrightarrow> P (g x)) \<Longrightarrow> find P (update_first P g xs) = map_option g (find P xs)"
  by (induction xs) auto

lemma find_update_first_other:
  "(\<And>x. P x \<Longrightarrow> \<not> Q x) \<Longrightarrow> (\<And>x. P x \<Longrightarrow> \<not> Q (g x)) \<Longrightarrow>
   find Q (update_first P g xs) = find Q xs"
  by (induction xs) auto

lemma find_append_single:
  "find P (xs @ [y]) =
     (case find P xs of Some x \<Rightarrow> Some x | None \<Rightarrow> if P y then Some y else None)"
  by (induction xs) auto

lemma stored_submit_other:
  "\<not> same_identity k seg s \<Longrightarrow> stored k seg (submit s st) = stored k seg st"
  by (auto simp: stored_def submit_def addFinding_def same_identity_def Let_def
        find_update_first_other find_append_single split: option.splits)

lemma stored_submit_same:
  "same_identity k seg s \<Longrightarrow>
   stored k seg (submit s st) =
     Some (case stored k seg st of None \<Rightarrow> fresh s | Some ex \<Rightarrow> merge ex s)"
  by (auto simp: stored_def submit_def addFinding_def same_identity_def Let_def merge_def
        fresh_def find_update_first_same find_append_single split: option.splits)

lemma submit_unchanged:
  "same_identity k seg s \<Longrightarrow> stored k seg st = Some ex \<Longrightarrow>
   \<not> s_magnitude s > magnitude ex \<Longrightarrow> submit s st = st"
  by (auto simp: stored_def submit_def addFinding_def same_identity_def Let_def)

lemma stored_addFindings_Some:
  "stored k seg st = Some ex \<Longrightarrow>
   stored k seg (addFindings ss st) = Some (foldl merge ex (filter (same_identity k seg) ss))"
  by (induction ss arbitrary: st ex) (auto simp: stored_submit_other stored_submit_same)

lemma stored_addFindings_None:
  "stored k seg st = None \<Longrightarrow>
   stored k seg (addFindings ss st) =
     (case filter (same_identity k seg) ss of
        [] \<Rightarrow> None
      | s # r \<Rightarrow> Some (foldl merge (fresh s) r))"
  by (induction ss arbitrary: st)
     (auto simp: stored_submit_other stored_submit_same stored_addFindings_Some)

lemma stored_None_first:
  assumes "stored k seg st = None" "filter (same_identity k seg) ss = s # r"
  shows "stored k seg (addFindings ss st) = Some (foldl merge (fresh s) r)"
  using assms by (simp add: stored_addFindings_None)

lemma magnitude_merge: "magnitude (merge ex s) = max (magnitude ex) (s_magnitude s)"
  by (simp add: merge_def max_def)

lemma magnitude_foldl_merge:
  "magnitude (foldl merge ex subs) = Max (insert (magnitude ex) (set (map s_magnitude subs)))"
proof (induction subs arbitrary: ex)
  case Nil
  then show ?case by simp
next
  case (Cons s subs)
  have "Max (insert (max (magnitude ex) (s_magnitude s)) (set (map s_magnitude subs)))
      = Max (insert (magnitude ex) (insert (s_magnitude s) (set (map s_magnitude subs))))"
    by (cases "subs = []") (simp_all add: max.assoc)
  with Cons show ?case by (simp add: magnitude_merge)
qed

lemma foldl_merge_fixed:
  "\<forall>s\<in>set subs. s_magnitude s \<le> magnitude ex \<Longrightarrow> foldl merge ex subs = ex"
  by (induction subs) (auto simp: merge_def)

lemma magnitude_foldl_merge_ge:
  "s \<in> set subs \<Longrightarrow> s_magnitude s \<le> magnitude (foldl merge ex subs)"
  by (simp add: magnitude_foldl_merge)

text \<open>
  The evidence reference after a sequence of merges: the stored one survives as long as no
  submission exceeds the stored magnitude; otherwise it is the reference of the first
  submission that carries the final magnitude.
\<close>

lemma evidenceRef_foldl_merge:
  "evidenceRef (foldl merge ex subs) =
     (if \<forall>s\<in>set subs. s_magnitude s \<le> magnitude ex then evidenceRef ex
      else s_evidenceRef
             (the (find (\<lambda>s. s_magnitude s = magnitude (foldl merge ex subs)) subs)))"
proof (induction subs arbitrary: ex)
  case Nil
  then show ?case by simp
next
  case (Cons s subs)
  show ?case
  proof (cases "s_magnitude s > magnitude ex")
    case True
    define ex' where "ex' = merge ex s"
    have m: "magnitude ex' = s_magnitude s" and r: "evidenceRef ex' = s_evidenceRef s"
      using True by (simp_all add: ex'_def merge_def)
    show ?thesis
    proof (cases "\<forall>r\<in>set subs. s_magnitude r \<le> s_magnitude s")
      case all: True
      then have "foldl merge ex' subs = ex'" by (simp add: foldl_merge_fixed m)
      then show ?thesis using True m r by (auto simp: ex'_def [symmetric])
    next
      case False
      then obtain r where "r \<in> set subs" "s_magnitude r > s_magnitude s" by force
      then have "s_magnitude s < magnitude (foldl merge ex' subs)"
        using magnitude_foldl_merge_ge [of r subs ex'] by simp
      then show ?thesis using True False Cons.IH [of ex'] m
        by (auto simp: ex'_def [symmetric])
    qed
  next
    case False
    then have e: "merge ex s = ex" by (simp add: merge_def)
    show ?thesis
    proof (cases "\<forall>r\<in>set subs. s_magnitude r \<le> magnitude ex")
      case True
      then show ?thesis using False e Cons.IH [of ex] by auto
    next
      case nall: False
      then obtain r where "r \<in> set subs" "s_magnitude r > magnitude ex" by force
      then have "magnitude ex < magnitude (foldl merge ex subs)"
        using magnitude_foldl_merge_ge [of r subs ex] by simp
      then show ?thesis using False nall e Cons.IH [of ex] by auto
    qed
  qed
qed

lemma prominence_foldl_merge:
  "prominence (foldl merge ex subs) =
     Max (insert (prominence ex) (set (map s_prominence (accepted_from (magnitude ex) subs))))"
proof (induction subs arbitrary: ex)
  case Nil
  then show ?case by simp
next
  case (Cons s subs)
  show ?case
  proof (cases "s_magnitude s > magnitude ex")
    case True
    then have m: "merge ex s = ex\<lparr>magnitude := s_magnitude s,
              prominence := max (prominence ex) (s_prominence s),
              evidenceRef := s_evidenceRef s\<rparr>" by (simp add: merge_def)
    let ?A = "set (map s_prominence (accepted_from (s_magnitude s) subs))"
    have "Max (insert (max (prominence ex) (s_prominence s)) ?A)
        = Max (insert (prominence ex) (insert (s_prominence s) ?A))"
      by (cases "?A = {}") (simp_all add: max.assoc)
    then show ?thesis using True Cons.IH [of "merge ex s"] by (simp add: m)
  next
    case False
    then show ?thesis using Cons.IH [of ex] by (simp add: merge_def)
  qed
qed

lemma set_accepted_from: "set (accepted_from m subs) \<subseteq> set subs"
  by (induction subs arbitrary: m) auto

lemma set_accepted: "set (accepted subs) \<subseteq> set subs"
  using set_accepted_from by (fastforce simp: accepted_def split: list.splits)

text \<open>
  Claim C2. A call of \<open>addFinding\<close> for an identity that already has a stored Finding
  replaces magnitude, prominence and evidence reference when the incoming magnitude is
  strictly greater than the stored one, and otherwise leaves the whole state unchanged.
  Hence, starting from a state without a Finding for the identity, after any sequence of
  calls the stored magnitude is the maximum of the magnitudes submitted for the identity,
  the evidence reference is that of the earliest submission carrying this maximum, and
  the stored magnitude is the same for every reordering of the calls.
\<close>

theorem addFinding_max_magnitude:
  "(stored k seg st = Some ex \<longrightarrow>
      (if mag > magnitude ex
       then stored k seg (addFinding k d seg mag p r st) =
              Some (ex\<lparr>magnitude := mag, prominence := max (prominence ex) p, evidenceRef := r\<rparr>)
       else addFinding k d seg mag p r st = st))
   \<and> (stored k seg st = None \<and> filter (same_identity k seg) ss \<noteq> [] \<longrightarrow>
        (\<exists>f s. stored k seg (addFindings ss st) = Some f
            \<and> magnitude f = Max (set (map s_magnitude (filter (same_identity k seg) ss)))
            \<and> find (\<lambda>x. s_magnitude x = magnitude f) (filter (same_identity k seg) ss) = Some s
            \<and> evidenceRef f = s_evidenceRef s)
        \<and> (\<forall>ss'. mset ss' = mset ss \<longrightarrow>
              map_option magnitude (stored k seg (addFindings ss' st)) =
              map_option magnitude (stored k seg (addFindings ss st))))"
proof (intro conjI impI)
  assume ex: "stored k seg st = Some ex"
  let ?s = "\<lparr>s_key = k, s_disparity = d, s_segment = seg, s_magnitude = mag,
             s_prominence = p, s_evidenceRef = r\<rparr>"
  have same: "same_identity k seg ?s" by (simp add: same_identity_def)
  have sub: "submit ?s st = addFinding k d seg mag p r st" by (simp add: submit_def)
  show "if mag > magnitude ex
       then stored k seg (addFinding k d seg mag p r st) =
              Some (ex\<lparr>magnitude := mag, prominence := max (prominence ex) p, evidenceRef := r\<rparr>)
       else addFinding k d seg mag p r st = st"
    using stored_submit_same [OF same, of st] submit_unchanged [OF same ex] ex
    by (auto simp: sub merge_def)
next
  assume h: "stored k seg st = None \<and> filter (same_identity k seg) ss \<noteq> []"
  let ?subs = "filter (same_identity k seg) ss"
  from h obtain s0 r0 where sr: "?subs = s0 # r0" by (cases ?subs) auto
  let ?f = "foldl merge (fresh s0) r0"
  have st: "stored k seg (addFindings ss st) = Some ?f"
    using h sr by (simp add: stored_None_first)
  have mag: "magnitude ?f = Max (set (map s_magnitude ?subs))"
    by (simp add: magnitude_foldl_merge sr fresh_sel)
  show "\<exists>f s. stored k seg (addFindings ss st) = Some f
            \<and> magnitude f = Max (set (map s_magnitude ?subs))
            \<and> find (\<lambda>x. s_magnitude x = magnitude f) ?subs = Some s
            \<and> evidenceRef f = s_evidenceRef s"
  proof (cases "\<forall>x\<in>set r0. s_magnitude x \<le> s_magnitude s0")
    case True
    then have "?f = fresh s0" by (simp add: foldl_merge_fixed fresh_sel)
    then have "find (\<lambda>x. s_magnitude x = magnitude ?f) ?subs = Some s0"
      and "evidenceRef ?f = s_evidenceRef s0"
      by (simp_all add: sr fresh_sel)
    with st mag show ?thesis by blast
  next
    case False
    then obtain x where x: "x \<in> set r0" "s_magnitude x > s_magnitude s0" by force
    then have lt: "s_magnitude s0 < magnitude ?f"
      using magnitude_foldl_merge_ge [of x r0 "fresh s0"] by simp
    have "magnitude ?f \<in> set (map s_magnitude ?subs)"
      unfolding mag by (rule Max_in) (simp_all add: sr)
    then have "magnitude ?f \<in> set (map s_magnitude r0)" using lt by (auto simp: sr)
    then obtain y where y: "find (\<lambda>x. s_magnitude x = magnitude ?f) r0 = Some y"
      by (cases "find (\<lambda>x. s_magnitude x = magnitude ?f) r0") (auto simp: find_None_iff)
    have "evidenceRef ?f = s_evidenceRef y"
      using False y evidenceRef_foldl_merge [of "fresh s0" r0] by (auto simp: fresh_sel)
    moreover have "find (\<lambda>x. s_magnitude x = magnitude ?f) ?subs = Some y"
      using y lt by (simp add: sr)
    ultimately show ?thesis using st mag by blast
  qed
  show "\<forall>ss'. mset ss' = mset ss \<longrightarrow>
              map_option magnitude (stored k seg (addFindings ss' st)) =
              map_option magnitude (stored k seg (addFindings ss st))"
  proof (intro allI impI)
    fix ss' assume p: "mset ss' = mset ss"
    let ?subs' = "filter (same_identity k seg) ss'"
    have "mset ?subs' = mset ?subs" using p by (simp add: mset_filter)
    then have seteq: "set ?subs' = set ?subs" by (rule mset_eq_setD)
    have "set ?subs \<noteq> {}" by (simp add: sr)
    with seteq have "set ?subs' \<noteq> {}" by simp
    then have "?subs' \<noteq> []" by (simp only: set_empty not_False_eq_True)
    then obtain s1 r1 where sr1: "?subs' = s1 # r1" by (cases ?subs') auto
    have "stored k seg (addFindings ss' st) = Some (foldl merge (fresh s1) r1)"
      using h sr1 by (simp add: stored_None_first)
    moreover have "magnitude (foldl merge (fresh s1) r1) = Max (set (map s_magnitude ?subs'))"
      by (simp add: magnitude_foldl_merge sr1 fresh_sel)
    moreover have "set (map s_magnitude ?subs') = set (map s_magnitude ?subs)"
      using seteq by (metis set_map)
    ultimately show "map_option magnitude (stored k seg (addFindings ss' st)) =
              map_option magnitude (stored k seg (addFindings ss st))"
      using st mag by simp
  qed
qed

theorem addFinding_max_magnitude_witness:
  "stored ''transport'' segment_overall
       (submit (transport_submission (27 / 10) 1 ''a.pdf p.1'') initial_state)
     = Some (fresh (transport_submission (27 / 10) 1 ''a.pdf p.1''))
   \<and> addFinding ''transport'' ''Transportation barrier'' segment_overall 2 3 ''b.pdf p.3''
       (submit (transport_submission (27 / 10) 1 ''a.pdf p.1'') initial_state)
     = submit (transport_submission (27 / 10) 1 ''a.pdf p.1'') initial_state
   \<and> stored ''transport'' segment_overall initial_state = None
   \<and> (\<exists>f. stored ''transport'' segment_overall
             (addFindings
                [transport_submission (27 / 10) 1 ''a.pdf p.1'',
                 food_submission (15 / 2) 1 ''a.pdf p.1'',
                 transport_submission 5 2 ''b.pdf p.2'',
                 transport_submission 5 3 ''b.pdf p.3'']
                initial_state) = Some f
          \<and> magnitude f = 5 \<and> evidenceRef f = ''b.pdf p.2'')"
proof -
  let ?a = "transport_submission (27 / 10) 1 ''a.pdf p.1''"
  let ?ss = "[?a, food_submission (15 / 2) 1 ''a.pdf p.1'',
              transport_submission 5 2 ''b.pdf p.2'', transport_submission 5 3 ''b.pdf p.3'']"
  let ?subs = "[?a, transport_submission 5 2 ''b.pdf p.2'', transport_submission 5 3 ''b.pdf p.3'']"
  have h1: "stored ''transport'' segment_overall (submit ?a initial_state) = Some (fresh ?a)"
    by (simp add: stored_def submit_def addFinding_def initial_state_def fresh_def
          transport_submission_def)
  have m: "\<not> 2 > magnitude (fresh ?a)"
    by (simp add: fresh_def transport_submission_def)
  have h2: "stored ''transport'' segment_overall initial_state = None"
    by (simp add: stored_def initial_state_def)
  have f: "filter (same_identity ''transport'' segment_overall) ?ss = ?subs"
    by (simp add: same_identity_def transport_submission_def food_submission_def
          finding_id_def segment_overall_def)
  have c1: "addFinding ''transport'' ''Transportation barrier'' segment_overall 2 3 ''b.pdf p.3''
       (submit ?a initial_state) = submit ?a initial_state"
    using addFinding_max_magnitude
      [of "''transport''" segment_overall "submit ?a initial_state" "fresh ?a" 2
          "''Transportation barrier''" 3 "''b.pdf p.3''"] h1 m
    by simp
  have "\<exists>f s. stored ''transport'' segment_overall (addFindings ?ss initial_state) = Some f
            \<and> magnitude f = Max (set (map s_magnitude ?subs))
            \<and> find (\<lambda>x. s_magnitude x = magnitude f) ?subs = Some s
            \<and> evidenceRef f = s_evidenceRef s"
    using addFinding_max_magnitude
      [of "''transport''" segment_overall initial_state _ _ _ _ _ ?ss] h2 f
    by simp
  then obtain f s where fs: "stored ''transport'' segment_overall (addFindings ?ss initial_state) = Some f"
      "magnitude f = Max (set (map s_magnitude ?subs))"
      "find (\<lambda>x. s_magnitude x = magnitude f) ?subs = Some s"
      "evidenceRef f = s_evidenceRef s"
    by blast
  have mx: "magnitude f = 5" using fs(2) by (simp add: transport_submission_def)
  have "s = transport_submission 5 2 ''b.pdf p.2''"
    using fs(3) unfolding mx by (simp add: transport_submission_def)
  then have "evidenceRef f = ''b.pdf p.2''" using fs(4) by (simp add: transport_submission_def)
  with fs(1) mx h1 h2 c1 show ?thesis by blast
qed

text \<open>
  Claim C3, as stated, asks for the stored prominence to be the maximum of all prominence
  values submitted for the identity, whatever their magnitudes. The code raises the
  prominence only inside the branch guarded by the magnitude comparison: a first
  submission with magnitude 5 and prominence 1, followed by one with magnitude 3 and
  prominence 4, leaves prominence 1.
\<close>

theorem addFinding_prominence_counterexample:
  "stored ''transport'' segment_overall
     (addFindings [transport_submission 5 1 ''a.pdf p.1'', transport_submission 3 4 ''b.pdf p.4'']
        initial_state)
   = Some (fresh (transport_submission 5 1 ''a.pdf p.1''))
   \<and> prominence (fresh (transport_submission 5 1 ''a.pdf p.1'')) = 1
   \<and> Max (set (map s_prominence
        [transport_submission 5 1 ''a.pdf p.1'', transport_submission 3 4 ''b.pdf p.4''])) = 4"
  by (simp add: stored_def submit_def addFinding_def initial_state_def fresh_def
        transport_submission_def)

text \<open>
  Claim C3, amended. Starting from a state without a Finding for the identity, after any
  sequence of calls the stored prominence is the maximum of the prominence values of the
  accepted submissions for that identity: the first one, and every later one whose
  magnitude is strictly greater than all magnitudes submitted before it. Submissions
  whose magnitude is not strictly greater do not contribute, so the stored prominence
  is at most the maximum of all submitted prominence values.
\<close>

theorem addFinding_prominence_accepted:
  "stored k seg st = None \<and> filter (same_identity k seg) ss \<noteq> [] \<longrightarrow>
     (\<exists>f. stored k seg (addFindings ss st) = Some f
        \<and> prominence f =
            Max (set (map s_prominence (accepted (filter (same_identity k seg) ss))))
        \<and> prominence f \<le> Max (set (map s_prominence (filter (same_identity k seg) ss))))"
proof
  assume h: "stored k seg st = None \<and> filter (same_identity k seg) ss \<noteq> []"
  let ?subs = "filter (same_identity k seg) ss"
  from h obtain s0 r0 where sr: "?subs = s0 # r0" by (cases ?subs) auto
  let ?f = "foldl merge (fresh s0) r0"
  have st: "stored k seg (addFindings ss st) = Some ?f"
    using h sr by (simp add: stored_None_first)
  have p: "prominence ?f = Max (set (map s_prominence (accepted ?subs)))"
    by (simp add: prominence_foldl_merge sr accepted_def fresh_sel)
  have ne: "set (map s_prominence (accepted ?subs)) \<noteq> {}"
    by (simp add: sr accepted_def)
  have "set (map s_prominence (accepted ?subs)) \<subseteq> set (map s_prominence ?subs)"
    using set_accepted [of ?subs] by auto
  then have "Max (set (map s_prominence (accepted ?subs))) \<le> Max (set (map s_prominence ?subs))"
    using ne by (intro Max_mono) simp_all
  with st p show "\<exists>f. stored k seg (addFindings ss st) = Some f
        \<and> prominence f = Max (set (map s_prominence (accepted ?subs)))
        \<and> prominence f \<le> Max (set (map s_prominence ?subs))"
    by simp
qed

theorem addFinding_prominence_accepted_witness:
  "stored ''transport'' segment_overall initial_state = None
   \<and> filter (same_identity ''transport'' segment_overall)
        [transport_submission 5 1 ''a.pdf p.1'', food_submission 9 7 ''a.pdf p.7'',
         transport_submission 3 4 ''b.pdf p.4'', transport_submission 6 2 ''c.pdf p.2'']
       \<noteq> []
   \<and> (\<exists>f. stored ''transport'' segment_overall
             (addFindings
                [transport_submission 5 1 ''a.pdf p.1'', food_submission 9 7 ''a.pdf p.7'',
                 transport_submission 3 4 ''b.pdf p.4'', transport_submission 6 2 ''c.pdf p.2'']
                initial_state) = Some f
          \<and> prominence f = 2)"
proof -
  let ?ss = "[transport_submission 5 1 ''a.pdf p.1'', food_submission 9 7 ''a.pdf p.7'',
         transport_submission 3 4 ''b.pdf p.4'', transport_submission 6 2 ''c.pdf p.2'']"
  let ?subs = "[transport_submission 5 1 ''a.pdf p.1'',
         transport_submission 3 4 ''b.pdf p.4'', transport_submission 6 2 ''c.pdf p.2'']"
  have h1: "stored ''transport'' segment_overall initial_state = None"
    by (simp add: stored_def initial_state_def)
  have f: "filter (same_identity ''transport'' segment_overall) ?ss = ?subs"
    by (simp add: same_identity_def transport_submission_def food_submission_def
          finding_id_def segment_overall_def)
  have a: "accepted ?subs = [transport_submission 5 1 ''a.pdf p.1'', transport_submission 6 2 ''c.pdf p.2'']"
    by (simp add: accepted_def transport_submission_def)
  have "\<exists>f. stored ''transport'' segment_overall (addFindings ?ss initial_state) = Some f
        \<and> prominence f = Max (set (map s_prominence (accepted ?subs)))
        \<and> prominence f \<le> Max (set (map s_prominence ?subs))"
    using addFinding_prominence_accepted [of "''transport''" segment_overall initial_state ?ss] h1 f
    by simp
  then obtain g where g: "stored ''transport'' segment_overall (addFindings ?ss initial_state) = Some g"
      "prominence g = Max (set (map s_prominence (accepted ?subs)))"
    by blast
  have "prominence g = 2" unfolding g(2) a by (simp add: transport_submission_def)
  with g(1) h1 f show ?thesis by simp
qed

section \<open>Properties of the Signal Extractor\<close>

lemma transport_addFinding [simp]: "transport (addFinding k d seg m p r st) = transport st"
  by (simp add: addFinding_def Let_def split: option.splits)

lemma transport_recordEvidence [simp]: "transport (recordEvidence l s d p st) = transport st"
  by (simp add: recordEvidence_def)

lemma transport_scanOther [simp]: "transport (scanOther dn i t prom st d) = transport st"
  by (simp add: scanOther_def split: list.splits option.splits prod.splits)

lemma transport_foldl_scanOther [simp]:
  "transport (foldl (scanOther dn i t prom) st ds) = transport st"
  by (induction ds arbitrary: st) simp_all

lemma transport_scanPage:
  "transport (snd (scanPage dn ps (i, t))) = transport_step t (transport (snd ps))"
  by (cases "transport (snd ps)")
     (auto simp: scanPage_def Let_def scanTransportOverall_def scanTransport6574_def
        transport_step_def split: option.splits prod.splits)

lemma transport_foldl_scanPage:
  "transport (snd (foldl (scanPage dn) ps its)) =
     foldl (\<lambda>tr t. transport_step t tr) (transport (snd ps)) (map snd its)"
proof (induction its arbitrary: ps)
  case Nil
  then show ?case by simp
next
  case (Cons it its)
  obtain i t where it: "it = (i, t)" by (cases it)
  show ?case using Cons.IH [of "scanPage dn ps it"] by (simp add: it transport_scanPage)
qed

lemma transport_scanDoc:
  "transport (scanDoc d st) = foldl (\<lambda>tr t. transport_step t tr) (transport st) (textByPage d)"
  by (simp add: scanDoc_def transport_foldl_scanPage)

lemma transport_scanDocs:
  "transport (scanDocs ds st) =
     foldl (\<lambda>tr t. transport_step t tr) (transport st) (concat (map textByPage ds))"
  unfolding scanDocs_def
  by (induction ds arbitrary: st) (simp_all add: transport_scanDoc)

lemma overall_foldl_step:
  "overall (foldl (\<lambda>tr t. transport_step t tr) tr ts) =
     (case overall tr of
        Some v \<Rightarrow> Some v
      | None \<Rightarrow>
          (case List.map_filter (\<lambda>t. map_option fst (findPercentNear t ''transportation'')) ts of
             [] \<Rightarrow> None
           | v # _ \<Rightarrow> Some v))"
  by (induction ts arbitrary: tr)
     (auto simp: transport_step_def List.map_filter_simps split: option.splits)

lemma age6574_foldl_step:
  "age6574 (foldl (\<lambda>tr t. transport_step t tr) tr ts) =
     (case List.map_filter (\<lambda>t. map_option fst (findAge6574Transport t)) ts of
        [] \<Rightarrow> age6574 tr
      | m # ms \<Rightarrow> Some (last (m # ms)))"
  by (induction ts arbitrary: tr)
     (auto simp: transport_step_def List.map_filter_simps split: option.splits list.splits)

text \<open>
  Claim C1, as stated, has every new match overwrite both scalars. The assignment of the
  overall scalar is guarded by \<open>state.transport.overall==null\<close>: with a first document
  reading 2.7% and a second one reading 5%, the overall scalar stays 2.7 although the
  latest match is 5.
\<close>

theorem scanDocs_overall_counterexample:
  "overall (transport (scanDocs
       [\<lparr>name = ''a.txt'', textByPage = [''transportation problems 2.7%'']\<rparr>,
        \<lparr>name = ''b.txt'', textByPage = [''transportation problems 5%'']\<rparr>]
       initial_state)) = Some (27 / 10)
   \<and> overall_matches
       [\<lparr>name = ''a.txt'', textByPage = [''transportation problems 2.7%'']\<rparr>,
        \<lparr>name = ''b.txt'', textByPage = [''transportation problems 5%'']\<rparr>] = [27 / 10, 5]
   \<and> overall (transport (scanDocs
       [\<lparr>name = ''a.txt'', textByPage = [''transportation problems 2.7%'']\<rparr>,
        \<lparr>name = ''b.txt'', textByPage = [''transportation problems 5%'']\<rparr>]
       initial_state))
     \<noteq> Some (last (overall_matches
       [\<lparr>name = ''a.txt'', textByPage = [''transportation problems 2.7%'']\<rparr>,
        \<lparr>name = ''b.txt'', textByPage = [''transportation problems 5%'']\<rparr>]))"
proof -
  have a: "findPercentNear ''transportation problems 2.7%'' ''transportation''
             = Some (27 / 10, ''transportation problems 2.7%'')"
    by code_simp
  have b: "findPercentNear ''transportation problems 5%'' ''transportation''
             = Some (5, ''transportation problems 5%'')"
    by code_simp
  have m: "overall_matches
       [\<lparr>name = ''a.txt'', textByPage = [''transportation problems 2.7%'']\<rparr>,
        \<lparr>name = ''b.txt'', textByPage = [''transportation problems 5%'']\<rparr>] = [27 / 10, 5]"
    by (simp add: overall_matches_def List.map_filter_simps a b)
  show ?thesis
    unfolding m
    by (simp add: transport_scanDocs transport_step_def a b initial_state_def)
qed

text \<open>
  Claim C1, amended. After scanning a sequence of documents, the age 65 to 74 scalar is
  the value of the latest successful match in reading order across all documents, and
  keeps its previous value when there is no match. The overall scalar, when it was unset
  before the scan, is the value of the first successful match in reading order and is not
  overwritten by later matches; when it was already set, the scan leaves it unchanged.
\<close>

theorem scanDocs_transport_scalars:
  "overall (transport (scanDocs ds st)) =
     (case overall (transport st) of
        Some v \<Rightarrow> Some v
      | None \<Rightarrow> (case overall_matches ds of [] \<Rightarrow> None | v # _ \<Rightarrow> Some v))
   \<and> age6574 (transport (scanDocs ds st)) =
     (case age6574_matches ds of
        [] \<Rightarrow> age6574 (transport st)
      | m # ms \<Rightarrow> Some (last (m # ms)))"
  unfolding overall_matches_def age6574_matches_def
  by (simp add: transport_scanDocs overall_foldl_step age6574_foldl_step)


section \<open>Properties of the Materiality Scorer\<close>

lemma baseScore_scoreFinding [simp]: "baseScore (scoreFinding b f) = baseScore f"
  by (simp add: scoreFinding_def baseScore_def Let_def)

lemma key_scoreFinding [simp]: "key (scoreFinding b f) = key f"
  by (simp add: scoreFinding_def Let_def)

lemma score_scoreFinding:
  "score (scoreFinding b f) =
     (if key f = ''transport'' then clamp (baseScore f + Math_round b) 0 100 else baseScore f)"
  by (simp add: scoreFinding_def Let_def)

lemma set_findings_computeMateriality:
  "set (findings (computeMateriality st)) =
     (\<lambda>f. scoreFinding (transportBonus (transport st)) (setConcentration (findings st) f))
       ` set (findings st)"
  by (simp add: computeMateriality_def)

lemma clamp_bounds: "mn \<le> mx \<Longrightarrow> mn \<le> clamp n mn mx \<and> clamp n mn mx \<le> mx"
  by (auto simp: clamp_def)

text \<open>
  The state \<open>differential_state\<close> is what scanning \<open>differential_doc\<close> produces, as far as
  the scorer reads it.
\<close>

lemma differential_state_scanned:
  "findings (scanDocs [differential_doc] initial_state) = findings differential_state
   \<and> transport (scanDocs [differential_doc] initial_state) = transport differential_state"
  by code_simp

lemma differential_scored:
  "map (\<lambda>f. (key f, segment f, score f, baseScore f))
     (findings (computeMateriality differential_state))
   = [(''transport'', segment_age6574, 74, 73), (''transport'', segment_overall, 66, 65)]"
  by code_simp

text \<open>
  Claim C4, as stated, has the scorer add the bonus \<open>clamp((amplification-1)*8, 0, 10)\<close>
  itself. The code adds \<open>Math.round\<close> of it. With overall 32 and age 65 to 74 at 36.75 the
  bonus is 19/16: the two transportation findings score 74 and 66, one above their base
  scores 73 and 65, and not 73 + 19/16 or 65 + 19/16.
\<close>

theorem computeMateriality_bonus_counterexample:
  "findings (scanDocs [differential_doc] initial_state) = findings differential_state
   \<and> transport (scanDocs [differential_doc] initial_state) = transport differential_state
   \<and> map (\<lambda>f. (key f, segment f, score f, baseScore f))
     (findings (computeMateriality differential_state))
   = [(''transport'', segment_age6574, 74, 73), (''transport'', segment_overall, 66, 65)]
   \<and> overall (transport differential_state) = Some 32
   \<and> age6574 (transport differential_state) = Some (147 / 4)
   \<and> clamp ((147 / 4 / 32 - 1) * 8) 0 (10 :: rat) = 19 / 16
   \<and> clamp (of_int 73 + 19 / 16) 0 (100 :: rat) \<noteq> of_int 74
   \<and> clamp (of_int 65 + 19 / 16) 0 (100 :: rat) \<noteq> of_int 66"
proof -
  have "overall (transport differential_state) = Some 32"
    and "age6574 (transport differential_state) = Some (147 / 4)"
    by (simp_all add: differential_state_def)
  moreover have "clamp ((147 / 4 / 32 - 1) * 8) 0 (10 :: rat) = 19 / 16"
    and "clamp (of_int 73 + 19 / 16) 0 (100 :: rat) \<noteq> of_int 74"
    and "clamp (of_int 65 + 19 / 16) 0 (100 :: rat) \<noteq> of_int 66"
    by (simp_all add: clamp_def)
  ultimately show ?thesis using differential_scored differential_state_scanned by simp
qed

text \<open>
  Claim C4, amended. For every finding whose key is the transportation category, when
  both scalars are known and the overall scalar is positive, the scorer adds the bonus
  \<open>clamp((amplification-1)*8, 0, 10)\<close> rounded to the nearest integer, with
  amplification = age 65 to 74 value / overall value, and clamps the total to [0,100]. With
  overall = 2.7 and age 65 to 74 = 8.5 the bonus is exactly 10.
\<close>

theorem computeMateriality_transport_bonus:
  "(\<forall>f\<in>set (findings (computeMateriality st)).
      key f = ''transport'' \<and> overall (transport st) = Some ov
        \<and> age6574 (transport st) = Some a \<and> ov > 0 \<longrightarrow>
      score f = clamp (baseScore f + Math_round (clamp ((a / ov - 1) * 8) 0 10)) 0 100
        \<and> 0 \<le> score f \<and> score f \<le> 100)
   \<and> transportBonus \<lparr>overall = Some (27 / 10), age6574 = Some (17 / 2)\<rparr> = 10"
proof (intro conjI ballI impI)
  fix f
  assume f: "f \<in> set (findings (computeMateriality st))"
    and h: "key f = ''transport'' \<and> overall (transport st) = Some ov
        \<and> age6574 (transport st) = Some a \<and> ov > 0"
  from f obtain g where g: "f = scoreFinding (transportBonus (transport st)) g"
    by (auto simp: set_findings_computeMateriality)
  have b: "transportBonus (transport st) = clamp ((a / ov - 1) * 8) 0 10"
    using h by (simp add: transportBonus_def)
  have k: "key g = ''transport''" using h g by simp
  show s: "score f = clamp (baseScore f + Math_round (clamp ((a / ov - 1) * 8) 0 10)) 0 100"
    using k by (simp add: g score_scoreFinding b)
  show "0 \<le> score f" "score f \<le> 100"
    unfolding s using clamp_bounds [of "0::int" 100] by simp_all
next
  show "transportBonus \<lparr>overall = Some (27 / 10), age6574 = Some (17 / 2)\<rparr> = 10"
    by (simp add: transportBonus_def clamp_def)
qed

theorem computeMateriality_transport_bonus_witness:
  "overall (transport differential_state) = Some 32
   \<and> age6574 (transport differential_state) = Some (147 / 4)
   \<and> (\<exists>f\<in>set (findings (computeMateriality differential_state)).
        key f = ''transport'' \<and> segment f = segment_overall
        \<and> score f = clamp (baseScore f + Math_round (clamp ((147 / 4 / 32 - 1) * 8) 0 10)) 0 100
        \<and> score f = 66 \<and> baseScore f = 65)"
proof -
  have t: "overall (transport differential_state) = Some 32"
    "age6574 (transport differential_state) = Some (147 / 4)"
    by (simp_all add: differential_state_def)
  from differential_scored obtain fa fo where
    fs: "findings (computeMateriality differential_state) = [fa, fo]"
    and fo: "key fo = ''transport''" "segment fo = segment_overall" "score fo = 66"
      "baseScore fo = 65"
    by (auto simp: map_eq_Cons_conv)
  have mem: "fo \<in> set (findings (computeMateriality differential_state))"
    by (simp add: fs)
  have "score fo = clamp (baseScore fo + Math_round (clamp ((147 / 4 / 32 - 1) * 8) 0 10)) 0 100"
    using computeMateriality_transport_bonus [of differential_state 32 "147 / 4"] mem fo(1) t
    by auto
  with mem fo t show ?thesis by blast
qed

section \<open>Properties of the Opportunity Synthesizer and the Tier Gate\<close>

lemma bestByKey_None: "bestByKey fs k = None \<longleftrightarrow> (\<forall>f\<in>set fs. key f \<noteq> k)"
  by (auto simp: bestByKey_def find_None_iff)

lemma bestByKey_Some: "(\<exists>f. bestByKey fs k = Some f) \<longleftrightarrow> (\<exists>f\<in>set fs. key f = k)"
  using bestByKey_None [of fs k] by (cases "bestByKey fs k") auto

lemma kind_makeOpp [simp]: "kind (makeOpp k e s b) = k"
  by (simp add: makeOpp_def Let_def)

lemma score_makeOpp: "opportunity.score (makeOpp k e s b) = scoreOpportunity e (clamp (of_int s) 0 100) attribution b"
  by (simp add: makeOpp_def Let_def)

lemma set_opportunities_buildOpportunities:
  "set (opportunities (buildOpportunities st)) =
     {makeOpp ''nmt'' 90 (case bestByKey (findings st) ''transport'' of
                            Some f \<Rightarrow> score f | None \<Rightarrow> 55) 35}
     \<union> (case bestByKey (findings st) ''food'' of
          Some f \<Rightarrow> {makeOpp ''food'' 80 (score f) 45} | None \<Rightarrow> {})
     \<union> (case bestByKey (findings st) ''access'' of
          Some f \<Rightarrow> {makeOpp ''care'' 75 (score f) 50} | None \<Rightarrow> {})"
  by (auto simp: buildOpportunities_def Let_def split: option.splits)

lemma neutral_score: "scoreOpportunity 90 55 attribution 35 = 71"
  by code_simp

text \<open>
  Claim C5. For every state of the findings list, the empty one included, the synthesizer
  returns a non-empty list that contains a transportation opportunity. A food opportunity
  is in the list exactly when a finding of the food category exists, and an
  access-to-care opportunity exactly when a finding of the access category exists. When
  no transportation finding exists, the transportation opportunity is built from the
  fixed responsiveness 55.
\<close>

theorem buildOpportunities_always_transport:
  "opportunities (buildOpportunities st) \<noteq> []
   \<and> (\<exists>x\<in>set (opportunities (buildOpportunities st)). kind x = ''nmt'')
   \<and> ((\<exists>x\<in>set (opportunities (buildOpportunities st)). kind x = ''food'')
        \<longleftrightarrow> (\<exists>f\<in>set (findings st). key f = ''food''))
   \<and> ((\<exists>x\<in>set (opportunities (buildOpportunities st)). kind x = ''care'')
        \<longleftrightarrow> (\<exists>f\<in>set (findings st). key f = ''access''))
   \<and> ((\<forall>f\<in>set (findings st). key f \<noteq> ''transport'') \<longrightarrow>
        (\<exists>x\<in>set (opportunities (buildOpportunities st)).
           kind x = ''nmt'' \<and> x = makeOpp ''nmt'' 90 55 35
           \<and> opportunity.score x = scoreOpportunity 90 55 attribution 35))"
proof -
  let ?S = "set (opportunities (buildOpportunities st))"
  have S: "?S = {makeOpp ''nmt'' 90 (case bestByKey (findings st) ''transport'' of
                            Some f \<Rightarrow> score f | None \<Rightarrow> 55) 35}
     \<union> (case bestByKey (findings st) ''food'' of
          Some f \<Rightarrow> {makeOpp ''food'' 80 (score f) 45} | None \<Rightarrow> {})
     \<union> (case bestByKey (findings st) ''access'' of
          Some f \<Rightarrow> {makeOpp ''care'' 75 (score f) 50} | None \<Rightarrow> {})"
    by (rule set_opportunities_buildOpportunities)
  have ne: "?S \<noteq> {}" unfolding S by simp
  then have c1: "opportunities (buildOpportunities st) \<noteq> []" by auto
  have c2: "\<exists>x\<in>?S. kind x = ''nmt''" unfolding S by simp
  have c3: "(\<exists>x\<in>?S. kind x = ''food'') \<longleftrightarrow> (\<exists>f\<in>set (findings st). key f = ''food'')"
    unfolding S bestByKey_Some [symmetric] by (auto split: option.splits)
  have c4: "(\<exists>x\<in>?S. kind x = ''care'') \<longleftrightarrow> (\<exists>f\<in>set (findings st). key f = ''access'')"
    unfolding S bestByKey_Some [symmetric] by (auto split: option.splits)
  have c5: "(\<forall>f\<in>set (findings st). key f \<noteq> ''transport'') \<longrightarrow>
        (\<exists>x\<in>?S. kind x = ''nmt'' \<and> x = makeOpp ''nmt'' 90 55 35
           \<and> opportunity.score x = scoreOpportunity 90 55 attribution 35)"
  proof
    assume "\<forall>f\<in>set (findings st). key f \<noteq> ''transport''"
    then have "bestByKey (findings st) ''transport'' = None" by (simp add: bestByKey_None)
    then have "makeOpp ''nmt'' 90 55 35 \<in> ?S" unfolding S by simp
    moreover have "opportunity.score (makeOpp ''nmt'' 90 55 35) = scoreOpportunity 90 55 attribution 35"
      by (simp add: score_makeOpp clamp_def)
    ultimately show "\<exists>x\<in>?S. kind x = ''nmt'' \<and> x = makeOpp ''nmt'' 90 55 35
           \<and> opportunity.score x = scoreOpportunity 90 55 attribution 35"
      by auto
  qed
  from c1 c2 c3 c4 c5 show ?thesis by blast
qed

theorem buildOpportunities_always_transport_witness:
  "\<not> (\<exists>f\<in>set (findings food_only_state). key f = ''transport'')
   \<and> (\<exists>x\<in>set (opportunities (buildOpportunities food_only_state)).
        kind x = ''nmt'' \<and> opportunity.score x = 71)
   \<and> (\<exists>x\<in>set (opportunities (buildOpportunities food_only_state)). kind x = ''food'')
   \<and> \<not> (\<exists>x\<in>set (opportunities (buildOpportunities food_only_state)). kind x = ''care'')"
proof -
  have h: "\<forall>f\<in>set (findings food_only_state). key f \<noteq> ''transport''"
    by (simp add: food_only_state_def initial_state_def)
  have f: "\<exists>f\<in>set (findings food_only_state). key f = ''food''"
    by (simp add: food_only_state_def initial_state_def)
  have a: "\<not> (\<exists>f\<in>set (findings food_only_state). key f = ''access'')"
    by (simp add: food_only_state_def initial_state_def)
  note t = buildOpportunities_always_transport [of food_only_state]
  from t h obtain x where
    x: "x \<in> set (opportunities (buildOpportunities food_only_state))" "kind x = ''nmt''"
       "opportunity.score x = scoreOpportunity 90 55 attribution 35"
    by blast
  then have c1: "\<exists>x\<in>set (opportunities (buildOpportunities food_only_state)).
        kind x = ''nmt'' \<and> opportunity.score x = 71"
    using neutral_score by auto
  from t f have c2: "\<exists>x\<in>set (opportunities (buildOpportunities food_only_state)). kind x = ''food''"
    by blast
  from t a have c3: "\<not> (\<exists>x\<in>set (opportunities (buildOpportunities food_only_state)). kind x = ''care'')"
    by blast
  from h c1 c2 c3 show ?thesis by blast
qed

text \<open>
  Claim C6. The gate is unlocked exactly when some opportunity of the current list has a
  score of at least 60. A reset empties the list, so the gate then evaluates to locked.
\<close>

theorem tier3Unlocked_iff_some_score_60:
  "tier3Unlocked st = (\<exists>x\<in>set (opportunities st). opportunity.score x \<ge> 60)
   \<and> opportunities (btn_reset st) = []
   \<and> \<not> tier3Unlocked (btn_reset st)"
  by (simp add: tier3Unlocked_def btn_reset_def list_ex_iff)

text \<open>
  Claim C7. With an empty findings list the synthesizer produces exactly one opportunity,
  the transportation one, with score round(0.30*90 + 0.30*55 + 0.25*70 + 0.15*(100-35)) = 71
  and strength Moderate, and the gate evaluates to unlocked.
\<close>

theorem buildOpportunities_empty_findings:
  "findings st = [] \<longrightarrow>
     (\<exists>x. opportunities (buildOpportunities st) = [x]
        \<and> kind x = ''nmt''
        \<and> opportunity.score x
            = Math_round (30 / 100 * 90 + 30 / 100 * 55 + 25 / 100 * 70 + 15 / 100 * (100 - 35))
        \<and> opportunity.score x = 71
        \<and> strength x = ''Moderate'')
     \<and> tier3Unlocked (buildOpportunities st)"
proof
  assume e: "findings st = []"
  have s: "opportunity.score (makeOpp ''nmt'' 90 55 35) = 71"
    using neutral_score by (simp add: score_makeOpp clamp_def)
  have o: "opportunities (buildOpportunities st) = [makeOpp ''nmt'' 90 55 35]"
    using e by (simp add: buildOpportunities_def bestByKey_def Let_def)
  have r: "Math_round (30 / 100 * 90 + 30 / 100 * 55 + 25 / 100 * 70 + 15 / 100 * (100 - 35)) = 71"
    using neutral_score by (simp add: scoreOpportunity_def attribution_def)
  have m: "strength (makeOpp ''nmt'' 90 55 35) = ''Moderate''"
    using neutral_score by (simp add: makeOpp_def Let_def strengthOf_def clamp_def)
  have u: "tier3Unlocked (buildOpportunities st)"
    by (simp add: tier3Unlocked_def o s)
  from o s r m u show "(\<exists>x. opportunities (buildOpportunities st) = [x]
        \<and> kind x = ''nmt''
        \<and> opportunity.score x
            = Math_round (30 / 100 * 90 + 30 / 100 * 55 + 25 / 100 * 70 + 15 / 100 * (100 - 35))
        \<and> opportunity.score x = 71
        \<and> strength x = ''Moderate'')
     \<and> tier3Unlocked (buildOpportunities st)"
    by simp
qed

theorem buildOpportunities_empty_findings_witness:
  "findings initial_state = []
   \<and> (\<exists>x. opportunities (buildOpportunities initial_state) = [x]
        \<and> kind x = ''nmt'' \<and> opportunity.score x = 71 \<and> strength x = ''Moderate'')
   \<and> tier3Unlocked (buildOpportunities initial_state)"
proof -
  have h: "findings initial_state = []" by (simp add: initial_state_def)
  show ?thesis using buildOpportunities_empty_findings [of initial_state] h by blast
qed

section \<open>Properties of the Financial Projection Engine\<close>


lemma Math_min_Num [simp]: "Math_min (Num a) (Num b) = Num (min a b)"
  by (simp add: Math_min_def min_def)

lemma Math_max_Num [simp]: "Math_max (Num a) (Num b) = Num (max a b)"
  by (simp add: Math_max_def max_def)

lemma js_clamp_Num [simp]: "js_clamp (Num a) (Num l) (Num h) = Num (clamp a l h)"
  by (simp add: js_clamp_def clamp_def)

lemma js_sub_Num [simp]: "js_sub (Num a) (Num b) = Num (a - b)"
  by (simp add: js_sub_def)

lemma ampFactorOf_Num: "\<exists>r. ampFactorOf tr wm = Num r"
  by (simp add: ampFactorOf_def split: option.splits)



text \<open>The cost chain of \<open>runTier3\<close>, read off the stored model.\<close>

lemma runTier3_model: "\<exists>m. model (runTier3 inp st) = Some m"
  by (simp add: runTier3_def Let_def)







text \<open>
  The sibling ROI-parity model does guard its inputs and its divisions: short of a field
  that parses to an infinity, every output of \<open>roi_calc\<close> is a finite number.
\<close>

lemma normRate_finite: "x \<noteq> PosInf \<Longrightarrow> x \<noteq> NegInf \<Longrightarrow> is_finite (normRate x)"
  by (cases x) (auto simp: normRate_def)

lemma orZero_finite: "x \<noteq> PosInf \<Longrightarrow> x \<noteq> NegInf \<Longrightarrow> is_finite (orZero x)"
  by (cases x) (auto simp: orZero_def)

lemma is_finite_Num: "is_finite x \<Longrightarrow> \<exists>r. x = Num r"
  by (cases x) simp_all

lemma roi_calc_finite_inputs:
  assumes "is_finite (visits i)" "is_finite (noshow i)" "is_finite (share i)"
    "is_finite (netrev i)" "is_finite (margc i)" "is_finite (mitig i)" "is_finite (trip i)"
    "is_finite (over i)" "is_finite (lmi i)" "is_finite (aa i)" "is_finite (bank i)"
  shows "finite_outputs (roi_calc i)"
proof -
  from assms obtain a b c d e f g h k l n where
    "visits i = Num a" "noshow i = Num b" "share i = Num c" "netrev i = Num d"
    "margc i = Num e" "mitig i = Num f" "trip i = Num g" "over i = Num h" "lmi i = Num k"
    "aa i = Num l" "bank i = Num n"
    by (metis is_finite_Num)
  then show ?thesis
    by (simp add: roi_calc_def finite_outputs_def Let_def js_sub_def)
qed

lemma roi_calc_always_finite:
  "plain_fields fs \<Longrightarrow> finite_outputs (roi_calc (roi_inputs fs))"
  unfolding plain_fields_def plain_def
  by (intro roi_calc_finite_inputs) (simp_all add: roi_inputs_def normRate_finite orZero_finite)
lemma default_months_zero:
  "model (runTier3 (with_months default_inputs 0) st) = Some m \<Longrightarrow>
   total_cost_horizon m = Num 0 \<and> annual_cost m = NaN \<and> net_annual m = NaN"
proof -
  assume m: "model (runTier3 (with_months default_inputs 0) st) = Some m"
  obtain am where am: "ampFactorOf (transport st) ''weighted'' = Num am"
    using ampFactorOf_Num by blast
  show ?thesis
    using m
    by (auto simp: runTier3_def Let_def with_months_def default_inputs_def orDefault_def am
          js_sub_def signed_inf_def)
qed

text \<open>
  Claim C9 says that the engine treats non-numeric parameters as zero and guards every
  division, the annualization by the months included, so that the output is always a
  finite number. \<open>runTier3\<close> does neither: with \<open>0\<close> typed into the months field and every
  other field left empty, the total cost is 0 and the annualized cost is
  \<open>0 * (12/0) = NaN\<close>, as is the net impact; with a startup cost of 5000 the annualized
  cost is infinite; and a text that is no number in the annual volume field stays \<open>NaN\<close>
  through the whole chain.
\<close>

theorem runTier3_zero_months:
  "(\<exists>m. model (runTier3 (with_months default_inputs 0) st) = Some m
       \<and> total_cost_horizon m = Num 0 \<and> annual_cost m = NaN \<and> net_annual m = NaN)
   \<and> (\<exists>m. model (runTier3 (default_inputs\<lparr>inp_annual := Parsed NaN\<rparr>) st) = Some m
       \<and> annual_touchpoints m = NaN \<and> annual_cost m = NaN)
   \<and> (\<exists>m. model (runTier3 (with_months (default_inputs\<lparr>inp_startup := Parsed (Num 5000)\<rparr>) 0) st)
            = Some m
       \<and> annual_cost m = PosInf)"
proof (intro conjI)
  obtain am where am: "ampFactorOf (transport st) ''weighted'' = Num am"
    using ampFactorOf_Num by blast
  show "\<exists>m. model (runTier3 (with_months default_inputs 0) st) = Some m
       \<and> total_cost_horizon m = Num 0 \<and> annual_cost m = NaN \<and> net_annual m = NaN"
    using runTier3_model [of "with_months default_inputs 0" st] default_months_zero by blast
  show "\<exists>m. model (runTier3 (default_inputs\<lparr>inp_annual := Parsed NaN\<rparr>) st) = Some m
       \<and> annual_touchpoints m = NaN \<and> annual_cost m = NaN"
    by (simp add: runTier3_def Let_def default_inputs_def orDefault_def am)
  show "\<exists>m. model (runTier3 (with_months (default_inputs\<lparr>inp_startup := Parsed (Num 5000)\<rparr>) 0) st)
            = Some m
       \<and> annual_cost m = PosInf"
    by (simp add: runTier3_def Let_def with_months_def default_inputs_def orDefault_def am
          signed_inf_def)
qed


section \<open>Properties of the Documentation Gap Evaluator\<close>

lemma find_truthy:
  "[] \<notin> set ps \<Longrightarrow> (case find P ps of None \<Rightarrow> False | Some f \<Rightarrow> f \<noteq> []) = list_ex P ps"
  by (induction ps) auto

lemma present_evalElement:
  "[] \<notin> set (pats el) \<Longrightarrow>
   present (evalElement all lower el) = list_ex (\<lambda>p. str_includes lower (toLowerCase p)) (pats el)"
  using find_truthy [of "pats el" "\<lambda>p. str_includes lower (toLowerCase p)"]
  by (auto simp: evalElement_def absent_def split: option.splits)

lemma presentCount_scoreBlock:
  assumes "\<forall>el\<in>set block. [] \<notin> set (pats el)"
  shows "presentCount (scoreBlock (join [CHR '' '', CHR 0x0A] (textByPage d)) (doc_lower d) block)
           = present_count d block"
proof -
  have "filter (\<lambda>el. present (evalElement (join [CHR '' '', CHR 0x0A] (textByPage d)) (doc_lower d) el)) block
      = filter (element_present d) block"
    using assms by (intro filter_cong) (simp_all add: present_evalElement element_present_def)
  then show ?thesis
    by (simp add: scoreBlock_def Let_def filter_map o_def present_count_def)
qed

lemma b_score_scoreBlock:
  "b_score (scoreBlock all lower block)
     = Math_round (of_nat (presentCount (scoreBlock all lower block)) / of_nat (length block) * 100)"
  by (simp add: scoreBlock_def Let_def)

lemma tables_nonempty_patterns:
  "\<forall>el\<in>set CHNA_ELEMENTS. [] \<notin> set (pats el)"
  "\<forall>el\<in>set IS_ELEMENTS. [] \<notin> set (pats el)"
  "\<forall>el\<in>set WRITTEN_COMMENT_ELEMENTS. [] \<notin> set (pats el)"
  by (simp_all add: CHNA_ELEMENTS_def IS_ELEMENTS_def WRITTEN_COMMENT_ELEMENTS_def)

lemma table_lengths:
  "length CHNA_ELEMENTS = 7" "length IS_ELEMENTS = 3" "length WRITTEN_COMMENT_ELEMENTS = 3"
  by (simp_all add: CHNA_ELEMENTS_def IS_ELEMENTS_def WRITTEN_COMMENT_ELEMENTS_def)

lemma present_count_le: "present_count d block \<le> length block"
  by (simp add: present_count_def)

lemma evalDoc_chnaScore:
  "chnaScore (evalDocForElements d)
     = Math_round (of_nat (present_count d CHNA_ELEMENTS) / 7 * 100)"
  using presentCount_scoreBlock [OF tables_nonempty_patterns(1), of d]
  by (simp add: evalDocForElements_def Let_def b_score_scoreBlock table_lengths
        doc_lower_def [symmetric])

lemma evalDoc_isScore:
  "isScore (evalDocForElements d)
     = Math_round (of_nat (present_count d IS_ELEMENTS) / 3 * 100)"
  using presentCount_scoreBlock [OF tables_nonempty_patterns(2), of d]
  by (simp add: evalDocForElements_def Let_def b_score_scoreBlock table_lengths
        doc_lower_def [symmetric])

lemma evalDoc_writtenCommentsScore:
  "writtenCommentsScore (evalDocForElements d)
     = (if present_count d WRITTEN_COMMENT_ELEMENTS = 3 then 100
        else if present_count d WRITTEN_COMMENT_ELEMENTS = 2 then 67
        else if present_count d WRITTEN_COMMENT_ELEMENTS = 1 then 33 else 0)"
  using presentCount_scoreBlock [OF tables_nonempty_patterns(3), of d]
  by (simp add: evalDocForElements_def Let_def doc_lower_def [symmetric])

lemma two_comment_elements:
  "present_count two_comment_elements_doc WRITTEN_COMMENT_ELEMENTS = 2"
  by code_simp

text \<open>
  Claim C10. For every document, the assessment block and the implementation-plan block
  each score round(present/total * 100), where present counts the elements of the block
  with a trigger phrase in the text. The comment-solicitation block has 0, 1, 2 or 3
  elements present and scores 0, 33, 67 or 100 accordingly; a document with exactly two of
  the three comment elements scores 67.
\<close>

theorem evalDocForElements_scores:
  "chnaScore (evalDocForElements d)
     = Math_round (of_nat (present_count d CHNA_ELEMENTS) / of_nat (length CHNA_ELEMENTS) * 100)
   \<and> isScore (evalDocForElements d)
     = Math_round (of_nat (present_count d IS_ELEMENTS) / of_nat (length IS_ELEMENTS) * 100)
   \<and> present_count d WRITTEN_COMMENT_ELEMENTS \<in> {0, 1, 2, 3}
   \<and> writtenCommentsScore (evalDocForElements d)
     = (if present_count d WRITTEN_COMMENT_ELEMENTS = 0 then 0
        else if present_count d WRITTEN_COMMENT_ELEMENTS = 1 then 33
        else if present_count d WRITTEN_COMMENT_ELEMENTS = 2 then 67
        else 100)
   \<and> present_count two_comment_elements_doc WRITTEN_COMMENT_ELEMENTS = 2
   \<and> writtenCommentsScore (evalDocForElements two_comment_elements_doc) = 67"
proof -
  have le: "present_count d WRITTEN_COMMENT_ELEMENTS \<le> 3"
    using present_count_le [of d WRITTEN_COMMENT_ELEMENTS] by (simp add: table_lengths)
  then have mem: "present_count d WRITTEN_COMMENT_ELEMENTS \<in> {0, 1, 2, 3}" by auto
  have wc: "writtenCommentsScore (evalDocForElements d)
     = (if present_count d WRITTEN_COMMENT_ELEMENTS = 0 then 0
        else if present_count d WRITTEN_COMMENT_ELEMENTS = 1 then 33
        else if present_count d WRITTEN_COMMENT_ELEMENTS = 2 then 67
        else 100)"
    using le by (auto simp: evalDoc_writtenCommentsScore)
  have ex: "writtenCommentsScore (evalDocForElements two_comment_elements_doc) = 67"
    by (simp add: evalDoc_writtenCommentsScore two_comment_elements)
  show ?thesis
    using mem wc ex two_comment_elements
    by (simp add: evalDoc_chnaScore evalDoc_isScore table_lengths)
qed

end
